theory Spec2Isabelle
  imports Complex_Main
begin

section \<open>JavaScript values\<close>

subsection \<open>Numbers\<close>

text \<open>
  A JavaScript number is modelled as a real number or one of the three special values of
  IEEE-754. The numbers the parser reads and the product that gives the split index of
  the trainer are rounded to double precision (\<open>roundDouble\<close> below); the sums, quotients
  and products of the profiler, of the cleaner and of the fit are exact. The sign of zero
  is not modelled: every zero behaves as \<open>+0\<close>. Each divisor of the source that can be
  zero is a length or a sum of squares, hence \<open>+0\<close>.
\<close>

datatype jsnum = Fin real | PInf | NInf | NaN

fun num_neg :: "jsnum \<Rightarrow> jsnum" where
  "num_neg (Fin a) = Fin (- a)"
| "num_neg PInf = NInf"
| "num_neg NInf = PInf"
| "num_neg NaN = NaN"

fun num_add :: "jsnum \<Rightarrow> jsnum \<Rightarrow> jsnum" where
  "num_add (Fin a) (Fin b) = Fin (a + b)"
| "num_add NaN _ = NaN"
| "num_add _ NaN = NaN"
| "num_add PInf NInf = NaN"
| "num_add NInf PInf = NaN"
| "num_add PInf _ = PInf"
| "num_add _ PInf = PInf"
| "num_add NInf _ = NInf"
| "num_add _ NInf = NInf"

definition num_sub :: "jsnum \<Rightarrow> jsnum \<Rightarrow> jsnum" where
  "num_sub a b = num_add a (num_neg b)"

fun num_sign :: "jsnum \<Rightarrow> int" where
  "num_sign (Fin a) = (if 0 < a then 1 else if a < 0 then - 1 else 0)"
| "num_sign PInf = 1"
| "num_sign NInf = - 1"
| "num_sign NaN = 0"

fun num_mul :: "jsnum \<Rightarrow> jsnum \<Rightarrow> jsnum" where
  "num_mul (Fin a) (Fin b) = Fin (a * b)"
| "num_mul NaN _ = NaN"
| "num_mul _ NaN = NaN"
| "num_mul a b =
     (let s = num_sign a * num_sign b
      in if s = 0 then NaN else if 0 < s then PInf else NInf)"

fun num_div :: "jsnum \<Rightarrow> jsnum \<Rightarrow> jsnum" where
  "num_div NaN _ = NaN"
| "num_div _ NaN = NaN"
| "num_div (Fin a) (Fin b) =
     (if b = 0 then (if a = 0 then NaN else if 0 < a then PInf else NInf)
      else Fin (a / b))"
| "num_div (Fin a) _ = Fin 0"
| "num_div a (Fin b) = (if (a = PInf) = (0 \<le> b) then PInf else NInf)"
| "num_div _ _ = NaN"

text \<open>\<open>a < b\<close> on numbers; every comparison with \<open>NaN\<close> is false.\<close>

fun num_less :: "jsnum \<Rightarrow> jsnum \<Rightarrow> bool" where
  "num_less NaN _ = False"
| "num_less _ NaN = False"
| "num_less (Fin a) (Fin b) = (a < b)"
| "num_less PInf _ = False"
| "num_less _ PInf = True"
| "num_less NInf NInf = False"
| "num_less NInf _ = True"
| "num_less _ NInf = False"

text \<open>\<open>Math.pow(x, 2)\<close>, \<open>Math.sqrt\<close>, \<open>Math.abs\<close>, \<open>Math.floor\<close>.\<close>

fun Math_pow2 :: "jsnum \<Rightarrow> jsnum" where
  "Math_pow2 (Fin a) = Fin (a * a)"
| "Math_pow2 NaN = NaN"
| "Math_pow2 _ = PInf"

fun Math_sqrt :: "jsnum \<Rightarrow> jsnum" where
  "Math_sqrt (Fin a) = (if a < 0 then NaN else Fin (sqrt a))"
| "Math_sqrt PInf = PInf"
| "Math_sqrt _ = NaN"

fun Math_abs :: "jsnum \<Rightarrow> jsnum" where
  "Math_abs (Fin a) = Fin \<bar>a\<bar>"
| "Math_abs NaN = NaN"
| "Math_abs _ = PInf"

fun Math_floor :: "jsnum \<Rightarrow> jsnum" where
  "Math_floor (Fin a) = Fin (of_int \<lfloor>a\<rfloor>)"
| "Math_floor x = x"

text \<open>A number is falsy when it is zero or \<open>NaN\<close>: \<open>x || d\<close>.\<close>

definition num_or :: "jsnum \<Rightarrow> jsnum \<Rightarrow> jsnum" where
  "num_or x d = (if x = Fin 0 \<or> x = NaN then d else x)"

definition num_of_nat :: "nat \<Rightarrow> jsnum" where
  "num_of_nat n = Fin (of_nat n)"

subsection \<open>Rounding to double precision\<close>

text \<open>
  \<open>roundDouble x\<close> is the double nearest to the real \<open>x\<close>, ties going to the even
  significand: with \<open>2\<^sup>e \<le> |x| < 2\<^sup>e\<^sup>+\<^sup>1\<close> (and \<open>e\<close> at least \<open>-1022\<close>, the subnormal
  range) the doubles around \<open>x\<close> are the multiples of \<open>2\<^sup>e\<^sup>-\<^sup>5\<^sup>2\<close>; a result of magnitude
  \<open>2\<^sup>1\<^sup>0\<^sup>2\<^sup>4\<close> or more is an infinity. \<open>binExp\<close> finds the exponent by halving or
  doubling at most \<open>fuel\<close> times; 1100 steps cover every finite double.
\<close>

function binExp :: "int \<Rightarrow> real \<Rightarrow> int" where
  "binExp fuel x =
     (if fuel \<le> 0 then 0
      else if 2 \<le> x then binExp (fuel - 1) (x / 2) + 1
      else if x < 1 then binExp (fuel - 1) (2 * x) - 1
      else 0)"
  by pat_completeness auto
termination
  by (relation "measure (\<lambda>(fuel, x). nat fuel)") auto

declare binExp.simps [simp del]

definition scale2 :: "real \<Rightarrow> int \<Rightarrow> real" where
  "scale2 v k = (if 0 \<le> k then v * 2 ^ nat k else v / 2 ^ nat (- k))"

definition roundHalfEven :: "real \<Rightarrow> int" where
  "roundHalfEven q =
     (let f = \<lfloor>q\<rfloor>; d = q - of_int f
      in if d < 1 / 2 then f
         else if 1 / 2 < d then f + 1
         else if even f then f else f + 1)"

definition roundDouble :: "real \<Rightarrow> jsnum" where
  "roundDouble x =
     (let a = \<bar>x\<bar>;
          e = max (binExp 1100 a) (- 1022);
          m = roundHalfEven (scale2 a (52 - e))
      in if 1024 \<le> e \<or> (e = 1023 \<and> 9007199254740992 \<le> m)
         then (if x < 0 then NInf else PInf)
         else Fin (if x < 0 then - scale2 (of_int m) (e - 52)
                   else scale2 (of_int m) (e - 52)))"

fun roundNum :: "jsnum \<Rightarrow> jsnum" where
  "roundNum (Fin x) = roundDouble x"
| "roundNum y = y"

text \<open>The product of two doubles, as \<open>a * b\<close> computes it.\<close>

definition mul64 :: "jsnum \<Rightarrow> jsnum \<Rightarrow> jsnum" where
  "mul64 a b = roundNum (num_mul a b)"

subsection \<open>Strings\<close>

text \<open>
  A string is a list of 8-bit code units. \<open>isSpace\<close> is the white space and line
  terminator set of ECMAScript in that range, the one \<open>String.prototype.trim\<close> and
  \<open>parseFloat\<close> skip.
\<close>

definition isSpace :: "char \<Rightarrow> bool" where
  "isSpace c = ((of_char c :: int) \<in> {9, 10, 11, 12, 13, 32, 160})"

definition isDigit :: "char \<Rightarrow> bool" where
  "isDigit c = (48 \<le> (of_char c :: int) \<and> (of_char c :: int) \<le> 57)"

definition digitVal :: "char \<Rightarrow> int" where
  "digitVal c = (of_char c :: int) - 48"

definition decVal :: "string \<Rightarrow> int" where
  "decVal s = foldl (\<lambda>a c. 10 * a + digitVal c) 0 s"

definition trimStart :: "string \<Rightarrow> string" where
  "trimStart s = dropWhile isSpace s"

definition trim :: "string \<Rightarrow> string" where
  "trim s = rev (dropWhile isSpace (rev (dropWhile isSpace s)))"

text \<open>\<open>s.split(c)\<close> for a one-character separator: empty pieces are kept.\<close>

fun split :: "char \<Rightarrow> string \<Rightarrow> string list" where
  "split c [] = [[]]"
| "split c (x # xs) =
     (if x = c then [] # split c xs
      else (let ws = split c xs in (x # hd ws) # tl ws))"

text \<open>
  \<open>s.replace(/^"|"$/g, '')\<close>: one double quote is removed at the start when there is
  one, and one at the end of what is left when there is one.
\<close>

definition stripQuotes :: "string \<Rightarrow> string" where
  "stripQuotes s =
     (let s1 = (case s of [] \<Rightarrow> [] | c # cs \<Rightarrow> if c = CHR 0x22 then cs else s)
      in if s1 \<noteq> [] \<and> last s1 = CHR 0x22 then butlast s1 else s1)"

subsection \<open>Parsing numbers\<close>

text \<open>
  \<open>strDecimalLiteral s\<close> reads the longest prefix of \<open>s\<close> that is a
  \<open>StrDecimalLiteral\<close> of ECMAScript (an optional sign, then \<open>Infinity\<close> or decimal
  digits with an optional fraction and an optional exponent) and returns its value,
  rounded to double, and the rest of the string, or \<open>None\<close> when no prefix is one.
\<close>

definition exponentPart :: "string \<Rightarrow> (int \<times> string)" where
  "exponentPart s =
     (case s of
        [] \<Rightarrow> (0, s)
      | c # r \<Rightarrow>
          if c = CHR ''e'' \<or> c = CHR ''E'' then
            (let (neg, r1) =
                   (case r of
                      [] \<Rightarrow> (False, r)
                    | d # r' \<Rightarrow> if d = CHR ''-'' then (True, r')
                               else if d = CHR ''+'' then (False, r') else (False, r));
                 ds = takeWhile isDigit r1
             in if ds = [] then (0, s)
                else ((if neg then - decVal ds else decVal ds),
                      dropWhile isDigit r1))
          else (0, s))"

definition scale10 :: "real \<Rightarrow> int \<Rightarrow> real" where
  "scale10 m e = (if 0 \<le> e then m * 10 ^ nat e else m / 10 ^ nat (- e))"

definition unsignedDecimal :: "string \<Rightarrow> (jsnum \<times> string) option" where
  "unsignedDecimal s =
     (if take 8 s = ''Infinity'' then Some (PInf, drop 8 s)
      else
        (let ip = takeWhile isDigit s;
             r1 = dropWhile isDigit s;
             (fp, hasDot, r2) =
               (case r1 of
                  [] \<Rightarrow> ([], False, r1)
                | c # r \<Rightarrow>
                    if c = CHR ''.'' then (takeWhile isDigit r, True, dropWhile isDigit r)
                    else ([], False, r1))
         in if ip = [] \<and> fp = [] then None
            else
              (let m = of_int (decVal ip) + of_int (decVal fp) / 10 ^ length fp;
                   (e, r3) = exponentPart r2
               in Some (roundDouble (scale10 m e), r3))))"

definition strDecimalLiteral :: "string \<Rightarrow> (jsnum \<times> string) option" where
  "strDecimalLiteral s =
     (case s of
        [] \<Rightarrow> None
      | c # r \<Rightarrow>
          if c = CHR ''-'' then
            (case unsignedDecimal r of
               None \<Rightarrow> None
             | Some (v, rest) \<Rightarrow> Some (num_neg v, rest))
          else if c = CHR ''+'' then unsignedDecimal r
          else unsignedDecimal s)"

text \<open>\<open>parseFloat(s)\<close>: leading white space is skipped, trailing text is ignored.\<close>

definition parseFloat :: "string \<Rightarrow> jsnum" where
  "parseFloat s =
     (case strDecimalLiteral (trimStart s) of
        None \<Rightarrow> NaN
      | Some (v, rest) \<Rightarrow> v)"

text \<open>
  \<open>ToNumber\<close> of a string (\<open>StringToNumber\<close>): the whole trimmed text has to be a
  numeric literal; the empty text is \<open>0\<close>; hexadecimal, octal and binary integer literals
  are accepted.
\<close>

definition radixDigit :: "char \<Rightarrow> int" where
  "radixDigit c =
     (let n = (of_char c :: int)
      in if 48 \<le> n \<and> n \<le> 57 then n - 48
         else if 97 \<le> n \<and> n \<le> 122 then n - 87
         else if 65 \<le> n \<and> n \<le> 90 then n - 55
         else 36)"

definition radixLiteral :: "int \<Rightarrow> string \<Rightarrow> jsnum" where
  "radixLiteral b ds =
     (if ds \<noteq> [] \<and> list_all (\<lambda>c. radixDigit c < b) ds
      then roundDouble (of_int (foldl (\<lambda>a c. b * a + radixDigit c) 0 ds))
      else NaN)"

definition decimalLiteral :: "string \<Rightarrow> jsnum" where
  "decimalLiteral t =
     (case strDecimalLiteral t of
        None \<Rightarrow> NaN
      | Some (v, rest) \<Rightarrow> if rest = [] then v else NaN)"

definition StringToNumber :: "string \<Rightarrow> jsnum" where
  "StringToNumber s =
     (let t = trim s
      in if t = [] then Fin 0
         else
           (case t of
              c0 # c1 # ds \<Rightarrow>
                if c0 = CHR ''0'' \<and> (c1 = CHR ''x'' \<or> c1 = CHR ''X'') then radixLiteral 16 ds
                else if c0 = CHR ''0'' \<and> (c1 = CHR ''o'' \<or> c1 = CHR ''O'') then radixLiteral 8 ds
                else if c0 = CHR ''0'' \<and> (c1 = CHR ''b'' \<or> c1 = CHR ''B'') then radixLiteral 2 ds
                else decimalLiteral t
            | _ \<Rightarrow> decimalLiteral t))"

subsection \<open>Cell values and operators\<close>

text \<open>
  The declared cell type is \<open>string | number | null\<close>; reading a property that a row does
  not have gives \<open>undefined\<close>, so the model has it as a fourth value.
\<close>

datatype jsval = Num jsnum | Str string | Null | Undefined

definition isNumber :: "jsval \<Rightarrow> bool" where
  "isNumber v = (case v of Num _ \<Rightarrow> True | _ \<Rightarrow> False)"

fun ToNumber :: "jsval \<Rightarrow> jsnum" where
  "ToNumber (Num n) = n"
| "ToNumber (Str s) = StringToNumber s"
| "ToNumber Null = Fin 0"
| "ToNumber Undefined = NaN"

text \<open>
  The decimal text of a finite number (\<open>Number::toString\<close>) is the shortest text that
  reads back as the same double; it has no counterpart on the reals, so the functions that
  print numbers take it as the parameter \<open>n2s\<close>.
\<close>

type_synonym numfmt = "real \<Rightarrow> string"

fun ToString :: "numfmt \<Rightarrow> jsval \<Rightarrow> string" where
  "ToString n2s (Num (Fin r)) = n2s r"
| "ToString n2s (Num PInf) = ''Infinity''"
| "ToString n2s (Num NInf) = ''-Infinity''"
| "ToString n2s (Num NaN) = ''NaN''"
| "ToString n2s (Str s) = s"
| "ToString n2s Null = ''null''"
| "ToString n2s Undefined = ''undefined''"

text \<open>\<open>a + b\<close>: concatenation as soon as one operand is a string, addition otherwise.\<close>

definition js_plus :: "numfmt \<Rightarrow> jsval \<Rightarrow> jsval \<Rightarrow> jsval" where
  "js_plus n2s a b =
     (case (a, b) of
        (Str s, _) \<Rightarrow> Str (s @ ToString n2s b)
      | (_, Str t) \<Rightarrow> Str (ToString n2s a @ t)
      | _ \<Rightarrow> Num (num_add (ToNumber a) (ToNumber b)))"

definition js_minus :: "jsval \<Rightarrow> jsval \<Rightarrow> jsnum" where
  "js_minus a b = num_sub (ToNumber a) (ToNumber b)"

definition js_div :: "jsval \<Rightarrow> jsval \<Rightarrow> jsnum" where
  "js_div a b = num_div (ToNumber a) (ToNumber b)"

subsection \<open>Rows\<close>

text \<open>
  A row is an object: its own properties in the order \<open>Object.keys\<close> and
  \<open>JSON.stringify\<close> enumerate them. Property names that are array indices come first,
  in ascending order; the others follow in the order of their creation. The prototype
  chain is not modelled: reading a name that is not an own property gives \<open>undefined\<close>
  (in JavaScript a name inherited from \<open>Object.prototype\<close>, such as \<open>constructor\<close>,
  would give a function there).
\<close>

type_synonym DataRow = "(string \<times> jsval) list"

definition getProp :: "DataRow \<Rightarrow> string \<Rightarrow> jsval" where
  "getProp row k = (case map_of row k of None \<Rightarrow> Undefined | Some v \<Rightarrow> v)"

definition Object_keys :: "DataRow \<Rightarrow> string list" where
  "Object_keys row = map fst row"

definition arrayIndex :: "string \<Rightarrow> int option" where
  "arrayIndex k =
     (if k \<noteq> [] \<and> list_all isDigit k \<and> (hd k \<noteq> CHR ''0'' \<or> length k = 1)
         \<and> decVal k < 4294967295
      then Some (decVal k) else None)"

definition keyBefore :: "string \<Rightarrow> string \<Rightarrow> bool" where
  "keyBefore k k' =
     (case arrayIndex k of
        None \<Rightarrow> False
      | Some i \<Rightarrow> (case arrayIndex k' of None \<Rightarrow> True | Some j \<Rightarrow> i < j))"

fun overwriteProp :: "DataRow \<Rightarrow> string \<Rightarrow> jsval \<Rightarrow> DataRow" where
  "overwriteProp [] k v = []"
| "overwriteProp ((k', v') # r) k v =
     (if k' = k then (k, v) # r else (k', v') # overwriteProp r k v)"

fun insertProp :: "DataRow \<Rightarrow> string \<Rightarrow> jsval \<Rightarrow> DataRow" where
  "insertProp [] k v = [(k, v)]"
| "insertProp ((k', v') # r) k v =
     (if keyBefore k k' then (k, v) # (k', v') # r else (k', v') # insertProp r k v)"

text \<open>Defining the own property \<open>k\<close>: an existing one keeps its place.\<close>

definition defineProp :: "DataRow \<Rightarrow> string \<Rightarrow> jsval \<Rightarrow> DataRow" where
  "defineProp row k v =
     (if k \<in> set (map fst row) then overwriteProp row k v else insertProp row k v)"

section \<open>Parsing\<close>

definition castCell :: "string \<Rightarrow> jsval" where
  "castCell val =
     (let numVal = parseFloat val
      in if numVal = NaN then (if val = [] then Null else Str val) else Num numVal)"

text \<open>
  The assignment \<open>row[header] = \<dots>\<close> on an object literal. For the name \<open>__proto__\<close> it
  runs the setter inherited from \<open>Object.prototype\<close>: no own property is created, and
  the value \<open>null\<close> removes the prototype, after which \<open>__proto__\<close> is a name like any
  other. The flag records that the prototype has been removed.
\<close>

definition assignProp :: "bool \<times> DataRow \<Rightarrow> string \<times> jsval \<Rightarrow> bool \<times> DataRow" where
  "assignProp st kv =
     (case st of (noProto, row) \<Rightarrow>
        (case kv of (k, v) \<Rightarrow>
           if k = ''__proto__'' \<and> \<not> noProto then (v = Null, row)
           else (noProto, defineProp row k v)))"

definition buildRow :: "string list \<Rightarrow> string list \<Rightarrow> DataRow" where
  "buildRow headers values =
     snd (foldl assignProp (False, []) (zip headers (map castCell values)))"

definition splitFields :: "string \<Rightarrow> string list" where
  "splitFields line = map (\<lambda>v. stripQuotes (trim v)) (split CHR '','' line)"

fun parseLines :: "string list \<Rightarrow> string list \<Rightarrow> DataRow list" where
  "parseLines headers [] = []"
| "parseLines headers (l # ls) =
     (let rowStr = trim l
      in if rowStr = [] then parseLines headers ls
         else
           (let values = splitFields rowStr
            in if length values = length headers
               then buildRow headers values # parseLines headers ls
               else parseLines headers ls))"

definition parseCSV :: "string \<Rightarrow> DataRow list" where
  "parseCSV csvText =
     (let lines = split (CHR 0x0A) (trim csvText)
      in if length lines < 2 then []
         else parseLines (splitFields (hd lines)) (tl lines))"

section \<open>Analysis\<close>

datatype ColumnType = number | string

record ColumnStat =
  name :: string
  type :: ColumnType
  missingCount :: nat
  uniqueCount :: nat
  sample :: "jsval list"

text \<open>The \<open>forEach\<close> over the rows, on the triple \<open>(missing, values, numberCount)\<close>.\<close>

definition countCell :: "string \<Rightarrow> nat \<times> jsval list \<times> nat \<Rightarrow> DataRow \<Rightarrow> nat \<times> jsval list \<times> nat" where
  "countCell key acc row =
     (case acc of (missing, values, numberCount) \<Rightarrow>
        (let val = getProp row key
         in if val = Null \<or> val = Undefined \<or> val = Str []
            then (missing + 1, values, numberCount)
            else (missing, values @ [val],
                  (if isNumber val then numberCount + 1 else numberCount))))"

definition columnStat :: "DataRow list \<Rightarrow> string \<Rightarrow> ColumnStat" where
  "columnStat data key =
     (case foldl (countCell key) (0, [], 0) data of (missing, values, numberCount) \<Rightarrow>
        \<lparr> name = key,
          type = (if num_less (Fin (8 / 10))
                       (num_div (num_of_nat numberCount) (num_of_nat (length values)))
                  then number else string),
          missingCount = missing,
          uniqueCount = length (remdups values),
          sample = take 5 values \<rparr>)"

definition analyzeColumns :: "DataRow list \<Rightarrow> ColumnStat list" where
  "analyzeColumns data =
     (case data of
        [] \<Rightarrow> []
      | row0 # _ \<Rightarrow> map (columnStat data) (Object_keys row0))"

section \<open>Cleaning\<close>

text \<open>
  \<open>[...values].sort((a, b) => a - b)\<close>. \<open>undefined\<close> elements go last without being
  compared; a comparator result of \<open>NaN\<close> counts as \<open>0\<close>. Where the comparator is not a
  consistent order (a string or \<open>NaN\<close> among the values) ECMAScript leaves the result to
  the implementation; the model is then a stable insertion sort.
\<close>

fun insertSorted :: "jsval \<Rightarrow> jsval list \<Rightarrow> jsval list" where
  "insertSorted x [] = [x]"
| "insertSorted x (y # ys) =
     (if num_less (Fin 0) (js_minus x y) then y # insertSorted x ys else x # y # ys)"

definition sortNumeric :: "jsval list \<Rightarrow> jsval list" where
  "sortNumeric xs =
     foldr insertSorted (filter (\<lambda>v. v \<noteq> Undefined) xs) []
       @ filter (\<lambda>v. v = Undefined) xs"

definition calculateMedian :: "numfmt \<Rightarrow> jsval list \<Rightarrow> jsval" where
  "calculateMedian n2s values =
     (if length values = 0 then Num (Fin 0)
      else
        (let sorted = sortNumeric values;
             mid = length sorted div 2
         in if length sorted mod 2 \<noteq> 0 then sorted ! mid
            else Num (js_div (js_plus n2s (sorted ! (mid - 1)) (sorted ! mid)) (Num (Fin 2)))))"

text \<open>
  The loop of \<open>calculateMode\<close> on \<open>(counts, maxCount, mode)\<close>. \<open>counts\<close> is a finite
  map from \<open>String(v)\<close> to the count; the names it would inherit from
  \<open>Object.prototype\<close> are not modelled.
\<close>

definition modeStep ::
  "numfmt \<Rightarrow> (string \<rightharpoonup> nat) \<times> nat \<times> jsval \<Rightarrow> jsval \<Rightarrow> (string \<rightharpoonup> nat) \<times> nat \<times> jsval" where
  "modeStep n2s st v =
     (case st of (counts, maxCount, mode) \<Rightarrow>
        (let k = ToString n2s v;
             c = (case counts k of None \<Rightarrow> 0 | Some n \<Rightarrow> n) + 1
         in if maxCount < c then (counts(k \<mapsto> c), c, v)
            else (counts(k \<mapsto> c), maxCount, mode)))"

definition calculateMode :: "numfmt \<Rightarrow> jsval list \<Rightarrow> jsval" where
  "calculateMode n2s values =
     (let mode0 = (case values of [] \<Rightarrow> Undefined | v # _ \<Rightarrow> v)
      in snd (snd (foldl (modeStep n2s) (Map.empty, 0, mode0) values)))"

datatype Method = drop_rows | fill_mean | fill_median | fill_mode

record CleaningOptions =
  method' :: Method
  targetColumns :: "string list"

text \<open>The test \<open>row[col] === null || row[col] === ''\<close>.\<close>

definition isMissing :: "jsval \<Rightarrow> bool" where
  "isMissing v = (v = Null \<or> v = Str [])"

definition fillValueOf :: "numfmt \<Rightarrow> ColumnStat \<Rightarrow> Method \<Rightarrow> jsval list \<Rightarrow> jsval" where
  "fillValueOf n2s stat m validValues =
     (if type stat = number then
        (if m = fill_mean then
           (let sum = foldl (js_plus n2s) (Num (Fin 0)) validValues
            in Num (js_div sum (Num (num_of_nat (length validValues)))))
         else if m = fill_median then calculateMedian n2s validValues
         else calculateMode n2s validValues)
      else calculateMode n2s validValues)"

text \<open>One turn of \<open>options.targetColumns.forEach\<close>, on the rows cleaned so far.\<close>

definition fillColumn ::
  "numfmt \<Rightarrow> ColumnStat list \<Rightarrow> Method \<Rightarrow> DataRow list \<Rightarrow> string \<Rightarrow> DataRow list" where
  "fillColumn n2s stats m cleaned col =
     (case find (\<lambda>s. name s = col) stats of
        None \<Rightarrow> cleaned
      | Some stat \<Rightarrow>
          (let validValues =
                 filter (\<lambda>v. v \<noteq> Null \<and> v \<noteq> Str []) (map (\<lambda>r. getProp r col) cleaned);
               fillValue = fillValueOf n2s stat m validValues
           in map (\<lambda>row. if isMissing (getProp row col) then defineProp row col fillValue
                          else row) cleaned))"

subsection \<open>\<open>JSON.stringify\<close> of a row\<close>

definition hexDigit :: "int \<Rightarrow> char" where
  "hexDigit n = ''0123456789abcdef'' ! nat n"

definition escapeChar :: "char \<Rightarrow> string" where
  "escapeChar c =
     (let n = (of_char c :: int)
      in if n = 8 then [CHR 0x5C, CHR ''b'']
         else if n = 9 then [CHR 0x5C, CHR ''t'']
         else if n = 10 then [CHR 0x5C, CHR ''n'']
         else if n = 12 then [CHR 0x5C, CHR ''f'']
         else if n = 13 then [CHR 0x5C, CHR ''r'']
         else if n = 34 then [CHR 0x5C, CHR 0x22]
         else if n = 92 then [CHR 0x5C, CHR 0x5C]
         else if n < 32 then
           [CHR 0x5C, CHR ''u'', CHR ''0'', CHR ''0'', hexDigit (n div 16), hexDigit (n mod 16)]
         else [c])"

definition quoteJSON :: "string \<Rightarrow> string" where
  "quoteJSON s = [CHR 0x22] @ concat (map escapeChar s) @ [CHR 0x22]"

fun serializeValue :: "numfmt \<Rightarrow> jsval \<Rightarrow> string" where
  "serializeValue n2s (Num (Fin r)) = n2s r"
| "serializeValue n2s (Num _) = ''null''"
| "serializeValue n2s (Str s) = quoteJSON s"
| "serializeValue n2s Null = ''null''"
| "serializeValue n2s Undefined = ''undefined''"

fun joinComma :: "string list \<Rightarrow> string" where
  "joinComma [] = []"
| "joinComma [x] = x"
| "joinComma (x # y # ys) = x @ '','' @ joinComma (y # ys)"

text \<open>A property whose value is \<open>undefined\<close> is left out.\<close>

definition JSON_stringify :: "numfmt \<Rightarrow> DataRow \<Rightarrow> string" where
  "JSON_stringify n2s row =
     ''{'' @ joinComma
               (map (\<lambda>(k, v). quoteJSON k @ '':'' @ serializeValue n2s v)
                  (filter (\<lambda>(k, v). v \<noteq> Undefined) row))
       @ ''}''"

text \<open>The final loop: \<open>seen\<close> is \<open>uniqueSet\<close>, the result is \<open>deduped\<close>.\<close>

fun dedupe :: "numfmt \<Rightarrow> string list \<Rightarrow> DataRow list \<Rightarrow> DataRow list" where
  "dedupe n2s seen [] = []"
| "dedupe n2s seen (row # rows) =
     (let s = JSON_stringify n2s row
      in if s \<in> set seen then dedupe n2s seen rows
         else row # dedupe n2s (s # seen) rows)"

definition cleanData ::
  "numfmt \<Rightarrow> DataRow list \<Rightarrow> ColumnStat list \<Rightarrow> CleaningOptions \<Rightarrow> DataRow list" where
  "cleanData n2s data stats options =
     (let cleaned =
            (if method' options = drop_rows then
               filter (\<lambda>row. \<not> list_ex (\<lambda>col. isMissing (getProp row col))
                                    (targetColumns options)) data
             else foldl (fillColumn n2s stats (method' options)) data (targetColumns options))
      in dedupe n2s [] cleaned)"

section \<open>Training\<close>

record Prediction =
  actual :: jsnum
  predicted :: jsnum

record ModelMetrics =
  mae :: jsnum
  mse :: jsnum
  r2 :: jsnum
  predictions :: "Prediction list"

subsection \<open>Filter and split\<close>

definition validData :: "DataRow list \<Rightarrow> string \<Rightarrow> string list \<Rightarrow> DataRow list" where
  "validData data target features =
     filter (\<lambda>row. isNumber (getProp row target)
                    \<and> list_all (\<lambda>f. isNumber (getProp row f)) features) data"

text \<open>
  An index argument of \<open>Array.prototype.slice\<close>: truncated to an integer (\<open>NaN\<close> is
  \<open>0\<close>), counted from the end when negative, clamped to the length.
\<close>

fun relIndex :: "jsnum \<Rightarrow> nat \<Rightarrow> nat" where
  "relIndex (Fin r) len =
     (let k = (if r < 0 then \<lceil>r\<rceil> else \<lfloor>r\<rfloor>)
      in if k < 0 then nat (max (int len + k) 0) else min (nat k) len)"
| "relIndex PInf len = len"
| "relIndex NInf len = 0"
| "relIndex NaN len = 0"

definition slice2 :: "'a list \<Rightarrow> jsnum \<Rightarrow> jsnum \<Rightarrow> 'a list" where
  "slice2 xs a b =
     (let from = relIndex a (length xs); to = relIndex b (length xs)
      in take (to - from) (drop from xs))"

definition slice1 :: "'a list \<Rightarrow> jsnum \<Rightarrow> 'a list" where
  "slice1 xs a = drop (relIndex a (length xs)) xs"

definition splitIndex :: "DataRow list \<Rightarrow> jsnum \<Rightarrow> jsnum" where
  "splitIndex valid splitRatio = Math_floor (mul64 (num_of_nat (length valid)) splitRatio)"

definition trainData :: "DataRow list \<Rightarrow> string \<Rightarrow> string list \<Rightarrow> jsnum \<Rightarrow> DataRow list" where
  "trainData data target features splitRatio =
     (let valid = validData data target features
      in slice2 valid (Fin 0) (splitIndex valid splitRatio))"

definition testData :: "DataRow list \<Rightarrow> string \<Rightarrow> string list \<Rightarrow> jsnum \<Rightarrow> DataRow list" where
  "testData data target features splitRatio =
     (let valid = validData data target features
      in slice1 valid (splitIndex valid splitRatio))"

subsection \<open>Normalisation\<close>

text \<open>
  \<open>weights\<close>, \<open>means\<close> and \<open>stds\<close> are objects with numeric values; a name that is
  absent reads as \<open>undefined\<close>, which is \<open>NaN\<close> in arithmetic.
\<close>

type_synonym numtab = "string \<rightharpoonup> jsnum"

definition numProp :: "numtab \<Rightarrow> string \<Rightarrow> jsnum" where
  "numProp t k = (case t k of None \<Rightarrow> NaN | Some x \<Rightarrow> x)"

definition columnMoments :: "DataRow list \<Rightarrow> string \<Rightarrow> jsnum \<times> jsnum" where
  "columnMoments train col =
     (let vals = map (\<lambda>r. ToNumber (getProp r col)) train;
          mean = num_div (foldl num_add (Fin 0) vals) (num_of_nat (length vals));
          variance =
            num_div (foldl (\<lambda>a b. num_add a (Math_pow2 (num_sub b mean))) (Fin 0) vals)
                    (num_of_nat (length vals))
      in (mean, num_or (Math_sqrt variance) (Fin 1)))"

definition fitScaler :: "DataRow list \<Rightarrow> string list \<Rightarrow> numtab \<times> numtab" where
  "fitScaler train cols =
     foldl (\<lambda>(means, stds) col.
              (case columnMoments train col of (mean, std) \<Rightarrow>
                 (means(col \<mapsto> mean), stds(col \<mapsto> std))))
           (Map.empty, Map.empty) cols"

definition normalize :: "numtab \<times> numtab \<Rightarrow> jsnum \<Rightarrow> string \<Rightarrow> jsnum" where
  "normalize sc val col = num_div (num_sub val (numProp (fst sc) col)) (numProp (snd sc) col)"

definition denormalize :: "numtab \<times> numtab \<Rightarrow> jsnum \<Rightarrow> string \<Rightarrow> jsnum" where
  "denormalize sc val col = num_add (num_mul val (numProp (snd sc) col)) (numProp (fst sc) col)"

subsection \<open>Gradient descent\<close>

definition learningRate :: jsnum where
  "learningRate = Fin (1 / 10000)"

definition epochs :: nat where
  "epochs = 500"

definition predictRow ::
  "numtab \<times> numtab \<Rightarrow> string list \<Rightarrow> jsnum \<times> numtab \<Rightarrow> DataRow \<Rightarrow> jsnum" where
  "predictRow sc features model row =
     foldl (\<lambda>p f. num_add p (num_mul (numProp (snd model) f)
                                      (normalize sc (ToNumber (getProp row f)) f)))
           (fst model) features"

definition sgdStep ::
  "numtab \<times> numtab \<Rightarrow> string \<Rightarrow> string list \<Rightarrow> jsnum \<times> numtab \<Rightarrow> DataRow \<Rightarrow> jsnum \<times> numtab" where
  "sgdStep sc target features model row =
     (let prediction = predictRow sc features model row;
          actual = normalize sc (ToNumber (getProp row target)) target;
          error = num_sub prediction actual;
          bias = num_sub (fst model) (num_mul learningRate error);
          weights =
            foldl (\<lambda>w f. w(f \<mapsto> num_sub (numProp w f)
                                      (num_mul (num_mul learningRate error)
                                               (normalize sc (ToNumber (getProp row f)) f))))
                  (snd model) features
      in (bias, weights))"

definition fit ::
  "numtab \<times> numtab \<Rightarrow> string \<Rightarrow> string list \<Rightarrow> DataRow list \<Rightarrow> jsnum \<times> numtab" where
  "fit sc target features train =
     ((\<lambda>model. foldl (sgdStep sc target features) model train) ^^ epochs)
       (Fin 0, foldl (\<lambda>w f. w(f \<mapsto> Fin 0)) Map.empty features)"

subsection \<open>Evaluation\<close>

definition evalStep ::
  "numtab \<times> numtab \<Rightarrow> string \<Rightarrow> string list \<Rightarrow> jsnum \<times> numtab
     \<Rightarrow> jsnum \<times> jsnum \<times> Prediction list \<Rightarrow> DataRow \<Rightarrow> jsnum \<times> jsnum \<times> Prediction list" where
  "evalStep sc target features model acc row =
     (case acc of (sumSquaredError, sumAbsError, preds) \<Rightarrow>
        (let normalizedPred = predictRow sc features model row;
             p = denormalize sc normalizedPred target;
             a = ToNumber (getProp row target)
         in (num_add sumSquaredError (Math_pow2 (num_sub a p)),
             num_add sumAbsError (Math_abs (num_sub a p)),
             preds @ [\<lparr> actual = a, predicted = p \<rparr>])))"

text \<open>The fit on the training rows and the evaluation on the test rows.\<close>

definition fitAndEvaluate ::
  "string \<Rightarrow> string list \<Rightarrow> DataRow list \<Rightarrow> DataRow list \<Rightarrow> ModelMetrics" where
  "fitAndEvaluate target features train test =
     (let sc = fitScaler train (features @ [target]);
          model = fit sc target features train
      in (case foldl (evalStep sc target features model) (Fin 0, Fin 0, []) test of
            (sumSquaredError, sumAbsError, preds) \<Rightarrow>
              (let n = num_of_nat (length test);
                   targetMean =
                     num_div (foldl (\<lambda>a r. num_add a (ToNumber (getProp r target))) (Fin 0) test) n;
                   totalVariance =
                     foldl (\<lambda>a r. num_add a
                                     (Math_pow2 (num_sub (ToNumber (getProp r target)) targetMean)))
                           (Fin 0) test
               in \<lparr> mae = num_div sumAbsError n,
                     mse = num_div sumSquaredError n,
                     r2 = num_sub (Fin 1) (num_div sumSquaredError totalVariance),
                     predictions = preds \<rparr>)))"

definition trainModel ::
  "DataRow list \<Rightarrow> string \<Rightarrow> string list \<Rightarrow> jsnum \<Rightarrow> ModelMetrics" where
  "trainModel data target features splitRatio =
     fitAndEvaluate target features
       (trainData data target features splitRatio)
       (testData data target features splitRatio)"

section \<open>A number format for examples\<close>

text \<open>
  \<open>Number::toString\<close> gives an integer below \<open>10\<^sup>2\<^sup>1\<close> in magnitude as its decimal
  digits. \<open>integerText\<close> is that text; it stands for \<open>n2s\<close> in the examples, whose
  numbers are such integers.
\<close>

function showDigits :: "int \<Rightarrow> string" where
  "showDigits n =
     (if n < 10 then [hexDigit n] else showDigits (n div 10) @ [hexDigit (n mod 10)])"
  by pat_completeness auto
termination
  by (relation "measure nat") auto

declare showDigits.simps [simp del]

definition integerText :: numfmt where
  "integerText r = (if r < 0 then CHR ''-'' # showDigits \<lfloor>- r\<rfloor> else showDigits \<lfloor>r\<rfloor>)"

section \<open>Notions of the specification\<close>

text \<open>
  The values of one column, those the profiler counts as non-missing, and how many of
  them are numbers: the terms in which the specification states the type inference.
\<close>

definition columnValues :: "DataRow list \<Rightarrow> string \<Rightarrow> jsval list" where
  "columnValues data key = map (\<lambda>row. getProp row key) data"

definition nonMissingValues :: "DataRow list \<Rightarrow> string \<Rightarrow> jsval list" where
  "nonMissingValues data key =
     filter (\<lambda>v. v \<noteq> Null \<and> v \<noteq> Undefined \<and> v \<noteq> Str []) (columnValues data key)"

definition numericCount :: "DataRow list \<Rightarrow> string \<Rightarrow> nat" where
  "numericCount data key = length (filter isNumber (nonMissingValues data key))"

text \<open>
  The lines of a CSV text as the parser sees them, its header fields and its data lines.
\<close>

definition csvLines :: "string \<Rightarrow> string list" where
  "csvLines csvText = split (CHR 0x0A) (trim csvText)"

definition headerFields :: "string \<Rightarrow> string list" where
  "headerFields csvText = splitFields (hd (csvLines csvText))"

definition dataLines :: "string \<Rightarrow> string list" where
  "dataLines csvText = tl (csvLines csvText)"



text \<open>
  \<open>lastField kvs k c\<close>: among the assignments \<open>kvs\<close>, the last one to the name \<open>k\<close>
  assigns \<open>c\<close>.
\<close>

definition lastField :: "(string \<times> jsval) list \<Rightarrow> string \<Rightarrow> jsval \<Rightarrow> bool" where
  "lastField kvs k c \<longleftrightarrow>
     (\<exists>i < length kvs. kvs ! i = (k, c) \<and> (\<forall>j. i < j \<and> j < length kvs \<longrightarrow> fst (kvs ! j) \<noteq> k))"


text \<open>
  An example text whose column \<open>a\<close> holds five numbers, the string \<open>x\<close> and one empty
  field: the profiler classifies it as \<open>number\<close> (5 of 6 non-missing values).
\<close>

definition mixedCSV :: string where
  "mixedCSV = ''a,b\<newline>1,1\<newline>2,2\<newline>3,3\<newline>4,4\<newline>5,5\<newline>x,6\<newline>,7''"

section \<open>Verified properties\<close>

subsection \<open>The final deduplication\<close>

lemma dedupe_subset: "set (dedupe n2s seen xs) \<subseteq> set xs"
  by (induction xs arbitrary: seen) (auto simp: Let_def)

lemma dedupe_fresh:
  "r \<in> set (dedupe n2s seen xs) \<Longrightarrow> JSON_stringify n2s r \<notin> set seen"
proof (induction xs arbitrary: seen)
  case Nil
  then show ?case by simp
next
  case (Cons x xs)
  show ?case
  proof (cases "JSON_stringify n2s x \<in> set seen")
    case True
    with Cons.prems have "r \<in> set (dedupe n2s seen xs)" by simp
    then show ?thesis by (rule Cons.IH)
  next
    case False
    with Cons.prems have "r = x \<or> r \<in> set (dedupe n2s (JSON_stringify n2s x # seen) xs)"
      by (simp add: Let_def)
    then show ?thesis
    proof
      assume "r = x"
      with False show ?thesis by simp
    next
      assume "r \<in> set (dedupe n2s (JSON_stringify n2s x # seen) xs)"
      then have "JSON_stringify n2s r \<notin> set (JSON_stringify n2s x # seen)" by (rule Cons.IH)
      then show ?thesis by simp
    qed
  qed
qed

lemma dedupe_distinct: "distinct (map (JSON_stringify n2s) (dedupe n2s seen xs))"
proof (induction xs arbitrary: seen)
  case Nil
  then show ?case by simp
next
  case (Cons x xs)
  show ?case
  proof (cases "JSON_stringify n2s x \<in> set seen")
    case True
    then show ?thesis using Cons.IH by simp
  next
    case False
    have "JSON_stringify n2s x
            \<notin> set (map (JSON_stringify n2s) (dedupe n2s (JSON_stringify n2s x # seen) xs))"
    proof
      assume "JSON_stringify n2s x
                \<in> set (map (JSON_stringify n2s) (dedupe n2s (JSON_stringify n2s x # seen) xs))"
      then obtain r where r: "r \<in> set (dedupe n2s (JSON_stringify n2s x # seen) xs)"
        and eq: "JSON_stringify n2s r = JSON_stringify n2s x" by auto
      from dedupe_fresh [OF r] eq show False by simp
    qed
    with False show ?thesis using Cons.IH by (simp add: Let_def)
  qed
qed

lemma dedupe_keeps:
  "distinct (map (JSON_stringify n2s) xs) \<Longrightarrow>
   set (map (JSON_stringify n2s) xs) \<inter> set seen = {} \<Longrightarrow> dedupe n2s seen xs = xs"
  by (induction xs arbitrary: seen) (auto simp: Let_def)

lemma dedupe_idem: "dedupe n2s [] (dedupe n2s [] xs) = dedupe n2s [] xs"
  by (rule dedupe_keeps) (simp_all add: dedupe_distinct)

lemma cleanData_no_targets:
  "targetColumns opts = [] \<Longrightarrow> cleanData n2s data stats opts = dedupe n2s [] data"
  by (simp add: cleanData_def)

text \<open>
  C8. With an empty \<open>targetColumns\<close>, cleaning the result of a cleaning returns the same
  rows again, whatever the method, the stats and the number format of either run: only
  the deduplication acts, and its result has no two rows with the same serialization.
\<close>

theorem cleanData_empty_targets_idempotent:
  assumes "targetColumns opts = []" and "targetColumns opts' = []"
  shows "cleanData n2s (cleanData n2s data stats opts) stats' opts'
           = cleanData n2s data stats opts"
  using assms by (simp add: cleanData_no_targets dedupe_idem)

theorem cleanData_empty_targets_idempotent_witness:
  "targetColumns \<lparr>method' = fill_mean, targetColumns = []\<rparr> = []
   \<and> cleanData integerText
         [[(''a'', Num (Fin 1))], [(''a'', Num (Fin 1))], [(''a'', Null)]] []
         \<lparr>method' = fill_mean, targetColumns = []\<rparr>
       = [[(''a'', Num (Fin 1))], [(''a'', Null)]]
   \<and> cleanData integerText
         (cleanData integerText
            [[(''a'', Num (Fin 1))], [(''a'', Num (Fin 1))], [(''a'', Null)]] []
            \<lparr>method' = fill_mean, targetColumns = []\<rparr>) []
         \<lparr>method' = fill_mean, targetColumns = []\<rparr>
       = [[(''a'', Num (Fin 1))], [(''a'', Null)]]"
proof -
  have v: "cleanData integerText
             [[(''a'', Num (Fin 1))], [(''a'', Num (Fin 1))], [(''a'', Null)]] []
             \<lparr>method' = fill_mean, targetColumns = []\<rparr>
           = [[(''a'', Num (Fin 1))], [(''a'', Null)]]"
    by code_simp
  show ?thesis
    using cleanData_empty_targets_idempotent
      [of "\<lparr>method' = fill_mean, targetColumns = []\<rparr>"
          "\<lparr>method' = fill_mean, targetColumns = []\<rparr>"
          integerText "[[(''a'', Num (Fin 1))], [(''a'', Num (Fin 1))], [(''a'', Null)]]"
          "[]" "[]"]
    by (simp add: v)
qed

subsection \<open>Dropping rows\<close>

lemma list_ex_missing:
  "list_ex (\<lambda>col. isMissing (getProp row col)) cols
     \<longleftrightarrow> (\<exists>col \<in> set cols. getProp row col = Null \<or> getProp row col = Str [])"
  by (simp add: list_ex_iff isMissing_def)

text \<open>
  C2. With the method \<open>drop_rows\<close>, the rows handed to the deduplication are the input
  rows, in order and unchanged, without those where some target column holds \<open>null\<close> or
  the empty string; every returned row is an input row with no missing value in any
  target column.
\<close>

theorem cleanData_drop_rows:
  assumes "method' opts = drop_rows"
  shows "cleanData n2s data stats opts
           = dedupe n2s []
               (filter (\<lambda>row. \<not> (\<exists>col \<in> set (targetColumns opts).
                                     getProp row col = Null \<or> getProp row col = Str [])) data)
         \<and> (\<forall>row \<in> set (cleanData n2s data stats opts). row \<in> set data \<and>
               (\<forall>col \<in> set (targetColumns opts).
                  getProp row col \<noteq> Null \<and> getProp row col \<noteq> Str []))"
proof -
  have eq: "cleanData n2s data stats opts
           = dedupe n2s []
               (filter (\<lambda>row. \<not> (\<exists>col \<in> set (targetColumns opts).
                                     getProp row col = Null \<or> getProp row col = Str [])) data)"
    using assms by (simp add: cleanData_def list_ex_missing)
  have "\<forall>row \<in> set (cleanData n2s data stats opts). row \<in> set data \<and>
           (\<forall>col \<in> set (targetColumns opts).
              getProp row col \<noteq> Null \<and> getProp row col \<noteq> Str [])"
    unfolding eq using dedupe_subset [of n2s "[]"] by fastforce
  with eq show ?thesis by (intro conjI)
qed

theorem cleanData_drop_rows_witness:
  "method' \<lparr>method' = drop_rows, targetColumns = [''a'', ''b'']\<rparr> = drop_rows
   \<and> cleanData integerText
         [[(''a'', Num (Fin 1)), (''b'', Null)],
          [(''a'', Str []), (''b'', Num (Fin 2))],
          [(''a'', Num (Fin 3)), (''b'', Num (Fin 4))],
          [(''a'', Str ''x''), (''b'', Num (Fin 5))]] []
         \<lparr>method' = drop_rows, targetColumns = [''a'', ''b'']\<rparr>
       = [[(''a'', Num (Fin 3)), (''b'', Num (Fin 4))],
          [(''a'', Str ''x''), (''b'', Num (Fin 5))]]
   \<and> list_all (\<lambda>row. list_all (\<lambda>col. getProp row col \<noteq> Null \<and> getProp row col \<noteq> Str [])
                          [''a'', ''b''])
         (cleanData integerText
            [[(''a'', Num (Fin 1)), (''b'', Null)],
             [(''a'', Str []), (''b'', Num (Fin 2))],
             [(''a'', Num (Fin 3)), (''b'', Num (Fin 4))],
             [(''a'', Str ''x''), (''b'', Num (Fin 5))]] []
            \<lparr>method' = drop_rows, targetColumns = [''a'', ''b'']\<rparr>)"
proof -
  have v: "cleanData integerText
         [[(''a'', Num (Fin 1)), (''b'', Null)],
          [(''a'', Str []), (''b'', Num (Fin 2))],
          [(''a'', Num (Fin 3)), (''b'', Num (Fin 4))],
          [(''a'', Str ''x''), (''b'', Num (Fin 5))]] []
         \<lparr>method' = drop_rows, targetColumns = [''a'', ''b'']\<rparr>
       = [[(''a'', Num (Fin 3)), (''b'', Num (Fin 4))],
          [(''a'', Str ''x''), (''b'', Num (Fin 5))]]"
    by code_simp
  have m: "method' \<lparr>method' = drop_rows, targetColumns = [''a'', ''b'']\<rparr> = drop_rows"
    by simp
  have B: "\<forall>row \<in> set (cleanData integerText
         [[(''a'', Num (Fin 1)), (''b'', Null)],
          [(''a'', Str []), (''b'', Num (Fin 2))],
          [(''a'', Num (Fin 3)), (''b'', Num (Fin 4))],
          [(''a'', Str ''x''), (''b'', Num (Fin 5))]] []
         \<lparr>method' = drop_rows, targetColumns = [''a'', ''b'']\<rparr>).
       row \<in> set [[(''a'', Num (Fin 1)), (''b'', Null)],
          [(''a'', Str []), (''b'', Num (Fin 2))],
          [(''a'', Num (Fin 3)), (''b'', Num (Fin 4))],
          [(''a'', Str ''x''), (''b'', Num (Fin 5))]] \<and>
       (\<forall>col \<in> set (targetColumns \<lparr>method' = drop_rows, targetColumns = [''a'', ''b'']\<rparr>).
          getProp row col \<noteq> Null \<and> getProp row col \<noteq> Str [])"
    by (rule conjunct2 [OF cleanData_drop_rows [OF m]])
  have "list_all (\<lambda>row. list_all (\<lambda>col. getProp row col \<noteq> Null \<and> getProp row col \<noteq> Str [])
                          [''a'', ''b''])
         (cleanData integerText
            [[(''a'', Num (Fin 1)), (''b'', Null)],
             [(''a'', Str []), (''b'', Num (Fin 2))],
             [(''a'', Num (Fin 3)), (''b'', Num (Fin 4))],
             [(''a'', Str ''x''), (''b'', Num (Fin 5))]] []
            \<lparr>method' = drop_rows, targetColumns = [''a'', ''b'']\<rparr>)"
    unfolding list_all_iff
  proof
    fix row
    assume "row \<in> set (cleanData integerText
                       [[(''a'', Num (Fin 1)), (''b'', Null)],
                        [(''a'', Str []), (''b'', Num (Fin 2))],
                        [(''a'', Num (Fin 3)), (''b'', Num (Fin 4))],
                        [(''a'', Str ''x''), (''b'', Num (Fin 5))]] []
                       \<lparr>method' = drop_rows, targetColumns = [''a'', ''b'']\<rparr>)"
    with B have "\<forall>col \<in> set (targetColumns \<lparr>method' = drop_rows, targetColumns = [''a'', ''b'']\<rparr>).
          getProp row col \<noteq> Null \<and> getProp row col \<noteq> Str []"
      by blast
    then show "\<forall>col \<in> set [''a'', ''b'']. getProp row col \<noteq> Null \<and> getProp row col \<noteq> Str []"
      by (simp only: CleaningOptions.simps)
  qed
  with m v show ?thesis by (intro conjI)
qed

subsection \<open>Type inference of the profiler\<close>

lemma countCell_triple:
  "countCell key (m, vs, n) row
     = (if getProp row key = Null \<or> getProp row key = Undefined \<or> getProp row key = Str []
        then (m + 1, vs, n)
        else (m, vs @ [getProp row key], (if isNumber (getProp row key) then n + 1 else n)))"
  by (simp add: countCell_def Let_def)

lemma nonMissingValues_Cons:
  "nonMissingValues (row # data) key
     = (if getProp row key = Null \<or> getProp row key = Undefined \<or> getProp row key = Str []
        then nonMissingValues data key
        else getProp row key # nonMissingValues data key)"
  by (simp add: nonMissingValues_def columnValues_def)

lemma numericCount_Cons:
  "numericCount (row # data) key
     = (if getProp row key = Null \<or> getProp row key = Undefined \<or> getProp row key = Str []
        then numericCount data key
        else if isNumber (getProp row key) then Suc (numericCount data key)
        else numericCount data key)"
  by (simp add: numericCount_def nonMissingValues_Cons)

lemma foldl_countCell:
  "snd (foldl (countCell key) (m, vs, n) data)
     = (vs @ nonMissingValues data key, n + numericCount data key)"
proof (induction data arbitrary: m vs n)
  case Nil
  then show ?case by (simp add: columnValues_def nonMissingValues_def numericCount_def)
next
  case (Cons row data)
  show ?case
    by (simp add: countCell_triple Cons.IH nonMissingValues_Cons numericCount_Cons)
qed

lemma columnStat_type_raw:
  "type (columnStat data key)
     = (if num_less (Fin (8 / 10))
             (num_div (num_of_nat (numericCount data key))
                      (num_of_nat (length (nonMissingValues data key))))
        then number else string)"
proof -
  obtain m vs n where f: "foldl (countCell key) (0, [], 0) data = (m, vs, n)"
    by (metis prod_cases3)
  from foldl_countCell [of key 0 "[]" 0 data] f
  have "vs = nonMissingValues data key" and "n = numericCount data key" by simp_all
  then show ?thesis by (simp add: columnStat_def f)
qed

lemma columnStat_type:
  "type (columnStat data key)
     = (if 8 / 10 * real (length (nonMissingValues data key)) < real (numericCount data key)
        then number else string)"
proof (cases "length (nonMissingValues data key) = 0")
  case True
  then have "numericCount data key = 0" by (simp add: numericCount_def)
  with True show ?thesis
    by (simp add: columnStat_type_raw num_of_nat_def)
next
  case False
  then have pos: "0 < real (length (nonMissingValues data key))" by simp
  show ?thesis
    using False pos
    by (simp add: columnStat_type_raw num_of_nat_def pos_less_divide_eq)
qed

lemma columnStat_name: "name (columnStat data key) = key"
  by (simp add: columnStat_def split: prod.splits)

text \<open>
  C4. A column is classified \<open>number\<close> exactly when the count of its numeric non-missing
  values exceeds 0.8 times the count of its non-missing values, and \<open>string\<close> otherwise;
  a column with no non-missing value (the quotient is \<open>0/0\<close>, \<open>NaN\<close>) is a \<open>string\<close>
  column.
\<close>

theorem analyzeColumns_type:
  assumes "st \<in> set (analyzeColumns data)"
  shows "type st
           = (if 8 / 10 * real (length (nonMissingValues data (name st)))
                   < real (numericCount data (name st))
              then number else string)
         \<and> (nonMissingValues data (name st) = [] \<longrightarrow> type st = string)"
proof -
  from assms obtain key where st: "st = columnStat data key"
    by (auto simp: analyzeColumns_def split: list.splits)
  have n: "name st = key" by (simp add: st columnStat_name)
  have t: "type st
           = (if 8 / 10 * real (length (nonMissingValues data (name st)))
                   < real (numericCount data (name st))
              then number else string)"
    unfolding n unfolding st by (rule columnStat_type)
  moreover have "nonMissingValues data (name st) = [] \<Longrightarrow> type st = string"
    by (simp add: t numericCount_def)
  ultimately show ?thesis by simp
qed

theorem analyzeColumns_type_witness:
  "columnStat 
      [[(''a'', Num (Fin 1)), (''b'', Num (Fin 1)), (''c'', Null)],
       [(''a'', Num (Fin 2)), (''b'', Num (Fin 2)), (''c'', Str [])],
       [(''a'', Num (Fin 3)), (''b'', Num (Fin 3)), (''c'', Null)],
       [(''a'', Num (Fin 4)), (''b'', Num (Fin 4)), (''c'', Null)],
       [(''a'', Str ''x''), (''b'', Num (Fin 5)), (''c'', Null)],
       [(''a'', Null), (''b'', Str ''y''), (''c'', Null)]]
      ''a'' \<in> set (analyzeColumns 
      [[(''a'', Num (Fin 1)), (''b'', Num (Fin 1)), (''c'', Null)],
       [(''a'', Num (Fin 2)), (''b'', Num (Fin 2)), (''c'', Str [])],
       [(''a'', Num (Fin 3)), (''b'', Num (Fin 3)), (''c'', Null)],
       [(''a'', Num (Fin 4)), (''b'', Num (Fin 4)), (''c'', Null)],
       [(''a'', Str ''x''), (''b'', Num (Fin 5)), (''c'', Null)],
       [(''a'', Null), (''b'', Str ''y''), (''c'', Null)]]
     )
   \<and> length (nonMissingValues 
      [[(''a'', Num (Fin 1)), (''b'', Num (Fin 1)), (''c'', Null)],
       [(''a'', Num (Fin 2)), (''b'', Num (Fin 2)), (''c'', Str [])],
       [(''a'', Num (Fin 3)), (''b'', Num (Fin 3)), (''c'', Null)],
       [(''a'', Num (Fin 4)), (''b'', Num (Fin 4)), (''c'', Null)],
       [(''a'', Str ''x''), (''b'', Num (Fin 5)), (''c'', Null)],
       [(''a'', Null), (''b'', Str ''y''), (''c'', Null)]]
      ''a'') = 5 \<and> numericCount 
      [[(''a'', Num (Fin 1)), (''b'', Num (Fin 1)), (''c'', Null)],
       [(''a'', Num (Fin 2)), (''b'', Num (Fin 2)), (''c'', Str [])],
       [(''a'', Num (Fin 3)), (''b'', Num (Fin 3)), (''c'', Null)],
       [(''a'', Num (Fin 4)), (''b'', Num (Fin 4)), (''c'', Null)],
       [(''a'', Str ''x''), (''b'', Num (Fin 5)), (''c'', Null)],
       [(''a'', Null), (''b'', Str ''y''), (''c'', Null)]]
      ''a'' = 4
   \<and> type (columnStat 
      [[(''a'', Num (Fin 1)), (''b'', Num (Fin 1)), (''c'', Null)],
       [(''a'', Num (Fin 2)), (''b'', Num (Fin 2)), (''c'', Str [])],
       [(''a'', Num (Fin 3)), (''b'', Num (Fin 3)), (''c'', Null)],
       [(''a'', Num (Fin 4)), (''b'', Num (Fin 4)), (''c'', Null)],
       [(''a'', Str ''x''), (''b'', Num (Fin 5)), (''c'', Null)],
       [(''a'', Null), (''b'', Str ''y''), (''c'', Null)]]
      ''a'') = string
   \<and> columnStat 
      [[(''a'', Num (Fin 1)), (''b'', Num (Fin 1)), (''c'', Null)],
       [(''a'', Num (Fin 2)), (''b'', Num (Fin 2)), (''c'', Str [])],
       [(''a'', Num (Fin 3)), (''b'', Num (Fin 3)), (''c'', Null)],
       [(''a'', Num (Fin 4)), (''b'', Num (Fin 4)), (''c'', Null)],
       [(''a'', Str ''x''), (''b'', Num (Fin 5)), (''c'', Null)],
       [(''a'', Null), (''b'', Str ''y''), (''c'', Null)]]
      ''b'' \<in> set (analyzeColumns 
      [[(''a'', Num (Fin 1)), (''b'', Num (Fin 1)), (''c'', Null)],
       [(''a'', Num (Fin 2)), (''b'', Num (Fin 2)), (''c'', Str [])],
       [(''a'', Num (Fin 3)), (''b'', Num (Fin 3)), (''c'', Null)],
       [(''a'', Num (Fin 4)), (''b'', Num (Fin 4)), (''c'', Null)],
       [(''a'', Str ''x''), (''b'', Num (Fin 5)), (''c'', Null)],
       [(''a'', Null), (''b'', Str ''y''), (''c'', Null)]]
     )
   \<and> length (nonMissingValues 
      [[(''a'', Num (Fin 1)), (''b'', Num (Fin 1)), (''c'', Null)],
       [(''a'', Num (Fin 2)), (''b'', Num (Fin 2)), (''c'', Str [])],
       [(''a'', Num (Fin 3)), (''b'', Num (Fin 3)), (''c'', Null)],
       [(''a'', Num (Fin 4)), (''b'', Num (Fin 4)), (''c'', Null)],
       [(''a'', Str ''x''), (''b'', Num (Fin 5)), (''c'', Null)],
       [(''a'', Null), (''b'', Str ''y''), (''c'', Null)]]
      ''b'') = 6 \<and> numericCount 
      [[(''a'', Num (Fin 1)), (''b'', Num (Fin 1)), (''c'', Null)],
       [(''a'', Num (Fin 2)), (''b'', Num (Fin 2)), (''c'', Str [])],
       [(''a'', Num (Fin 3)), (''b'', Num (Fin 3)), (''c'', Null)],
       [(''a'', Num (Fin 4)), (''b'', Num (Fin 4)), (''c'', Null)],
       [(''a'', Str ''x''), (''b'', Num (Fin 5)), (''c'', Null)],
       [(''a'', Null), (''b'', Str ''y''), (''c'', Null)]]
      ''b'' = 5
   \<and> type (columnStat 
      [[(''a'', Num (Fin 1)), (''b'', Num (Fin 1)), (''c'', Null)],
       [(''a'', Num (Fin 2)), (''b'', Num (Fin 2)), (''c'', Str [])],
       [(''a'', Num (Fin 3)), (''b'', Num (Fin 3)), (''c'', Null)],
       [(''a'', Num (Fin 4)), (''b'', Num (Fin 4)), (''c'', Null)],
       [(''a'', Str ''x''), (''b'', Num (Fin 5)), (''c'', Null)],
       [(''a'', Null), (''b'', Str ''y''), (''c'', Null)]]
      ''b'') = number
   \<and> columnStat 
      [[(''a'', Num (Fin 1)), (''b'', Num (Fin 1)), (''c'', Null)],
       [(''a'', Num (Fin 2)), (''b'', Num (Fin 2)), (''c'', Str [])],
       [(''a'', Num (Fin 3)), (''b'', Num (Fin 3)), (''c'', Null)],
       [(''a'', Num (Fin 4)), (''b'', Num (Fin 4)), (''c'', Null)],
       [(''a'', Str ''x''), (''b'', Num (Fin 5)), (''c'', Null)],
       [(''a'', Null), (''b'', Str ''y''), (''c'', Null)]]
      ''c'' \<in> set (analyzeColumns 
      [[(''a'', Num (Fin 1)), (''b'', Num (Fin 1)), (''c'', Null)],
       [(''a'', Num (Fin 2)), (''b'', Num (Fin 2)), (''c'', Str [])],
       [(''a'', Num (Fin 3)), (''b'', Num (Fin 3)), (''c'', Null)],
       [(''a'', Num (Fin 4)), (''b'', Num (Fin 4)), (''c'', Null)],
       [(''a'', Str ''x''), (''b'', Num (Fin 5)), (''c'', Null)],
       [(''a'', Null), (''b'', Str ''y''), (''c'', Null)]]
     )
   \<and> nonMissingValues 
      [[(''a'', Num (Fin 1)), (''b'', Num (Fin 1)), (''c'', Null)],
       [(''a'', Num (Fin 2)), (''b'', Num (Fin 2)), (''c'', Str [])],
       [(''a'', Num (Fin 3)), (''b'', Num (Fin 3)), (''c'', Null)],
       [(''a'', Num (Fin 4)), (''b'', Num (Fin 4)), (''c'', Null)],
       [(''a'', Str ''x''), (''b'', Num (Fin 5)), (''c'', Null)],
       [(''a'', Null), (''b'', Str ''y''), (''c'', Null)]]
      ''c'' = []
   \<and> type (columnStat 
      [[(''a'', Num (Fin 1)), (''b'', Num (Fin 1)), (''c'', Null)],
       [(''a'', Num (Fin 2)), (''b'', Num (Fin 2)), (''c'', Str [])],
       [(''a'', Num (Fin 3)), (''b'', Num (Fin 3)), (''c'', Null)],
       [(''a'', Num (Fin 4)), (''b'', Num (Fin 4)), (''c'', Null)],
       [(''a'', Str ''x''), (''b'', Num (Fin 5)), (''c'', Null)],
       [(''a'', Null), (''b'', Str ''y''), (''c'', Null)]]
      ''c'') = string"
proof -
  have ma: "columnStat 
      [[(''a'', Num (Fin 1)), (''b'', Num (Fin 1)), (''c'', Null)],
       [(''a'', Num (Fin 2)), (''b'', Num (Fin 2)), (''c'', Str [])],
       [(''a'', Num (Fin 3)), (''b'', Num (Fin 3)), (''c'', Null)],
       [(''a'', Num (Fin 4)), (''b'', Num (Fin 4)), (''c'', Null)],
       [(''a'', Str ''x''), (''b'', Num (Fin 5)), (''c'', Null)],
       [(''a'', Null), (''b'', Str ''y''), (''c'', Null)]]
      ''a'' \<in> set (analyzeColumns 
      [[(''a'', Num (Fin 1)), (''b'', Num (Fin 1)), (''c'', Null)],
       [(''a'', Num (Fin 2)), (''b'', Num (Fin 2)), (''c'', Str [])],
       [(''a'', Num (Fin 3)), (''b'', Num (Fin 3)), (''c'', Null)],
       [(''a'', Num (Fin 4)), (''b'', Num (Fin 4)), (''c'', Null)],
       [(''a'', Str ''x''), (''b'', Num (Fin 5)), (''c'', Null)],
       [(''a'', Null), (''b'', Str ''y''), (''c'', Null)]]
     )"
    and mb: "columnStat 
      [[(''a'', Num (Fin 1)), (''b'', Num (Fin 1)), (''c'', Null)],
       [(''a'', Num (Fin 2)), (''b'', Num (Fin 2)), (''c'', Str [])],
       [(''a'', Num (Fin 3)), (''b'', Num (Fin 3)), (''c'', Null)],
       [(''a'', Num (Fin 4)), (''b'', Num (Fin 4)), (''c'', Null)],
       [(''a'', Str ''x''), (''b'', Num (Fin 5)), (''c'', Null)],
       [(''a'', Null), (''b'', Str ''y''), (''c'', Null)]]
      ''b'' \<in> set (analyzeColumns 
      [[(''a'', Num (Fin 1)), (''b'', Num (Fin 1)), (''c'', Null)],
       [(''a'', Num (Fin 2)), (''b'', Num (Fin 2)), (''c'', Str [])],
       [(''a'', Num (Fin 3)), (''b'', Num (Fin 3)), (''c'', Null)],
       [(''a'', Num (Fin 4)), (''b'', Num (Fin 4)), (''c'', Null)],
       [(''a'', Str ''x''), (''b'', Num (Fin 5)), (''c'', Null)],
       [(''a'', Null), (''b'', Str ''y''), (''c'', Null)]]
     )"
    and mc: "columnStat 
      [[(''a'', Num (Fin 1)), (''b'', Num (Fin 1)), (''c'', Null)],
       [(''a'', Num (Fin 2)), (''b'', Num (Fin 2)), (''c'', Str [])],
       [(''a'', Num (Fin 3)), (''b'', Num (Fin 3)), (''c'', Null)],
       [(''a'', Num (Fin 4)), (''b'', Num (Fin 4)), (''c'', Null)],
       [(''a'', Str ''x''), (''b'', Num (Fin 5)), (''c'', Null)],
       [(''a'', Null), (''b'', Str ''y''), (''c'', Null)]]
      ''c'' \<in> set (analyzeColumns 
      [[(''a'', Num (Fin 1)), (''b'', Num (Fin 1)), (''c'', Null)],
       [(''a'', Num (Fin 2)), (''b'', Num (Fin 2)), (''c'', Str [])],
       [(''a'', Num (Fin 3)), (''b'', Num (Fin 3)), (''c'', Null)],
       [(''a'', Num (Fin 4)), (''b'', Num (Fin 4)), (''c'', Null)],
       [(''a'', Str ''x''), (''b'', Num (Fin 5)), (''c'', Null)],
       [(''a'', Null), (''b'', Str ''y''), (''c'', Null)]]
     )"
    by (simp_all add: analyzeColumns_def Object_keys_def)
  have la: "length (nonMissingValues 
      [[(''a'', Num (Fin 1)), (''b'', Num (Fin 1)), (''c'', Null)],
       [(''a'', Num (Fin 2)), (''b'', Num (Fin 2)), (''c'', Str [])],
       [(''a'', Num (Fin 3)), (''b'', Num (Fin 3)), (''c'', Null)],
       [(''a'', Num (Fin 4)), (''b'', Num (Fin 4)), (''c'', Null)],
       [(''a'', Str ''x''), (''b'', Num (Fin 5)), (''c'', Null)],
       [(''a'', Null), (''b'', Str ''y''), (''c'', Null)]]
      ''a'') = 5"
    and na: "numericCount 
      [[(''a'', Num (Fin 1)), (''b'', Num (Fin 1)), (''c'', Null)],
       [(''a'', Num (Fin 2)), (''b'', Num (Fin 2)), (''c'', Str [])],
       [(''a'', Num (Fin 3)), (''b'', Num (Fin 3)), (''c'', Null)],
       [(''a'', Num (Fin 4)), (''b'', Num (Fin 4)), (''c'', Null)],
       [(''a'', Str ''x''), (''b'', Num (Fin 5)), (''c'', Null)],
       [(''a'', Null), (''b'', Str ''y''), (''c'', Null)]]
      ''a'' = 4"
    and lb: "length (nonMissingValues 
      [[(''a'', Num (Fin 1)), (''b'', Num (Fin 1)), (''c'', Null)],
       [(''a'', Num (Fin 2)), (''b'', Num (Fin 2)), (''c'', Str [])],
       [(''a'', Num (Fin 3)), (''b'', Num (Fin 3)), (''c'', Null)],
       [(''a'', Num (Fin 4)), (''b'', Num (Fin 4)), (''c'', Null)],
       [(''a'', Str ''x''), (''b'', Num (Fin 5)), (''c'', Null)],
       [(''a'', Null), (''b'', Str ''y''), (''c'', Null)]]
      ''b'') = 6"
    and nb: "numericCount 
      [[(''a'', Num (Fin 1)), (''b'', Num (Fin 1)), (''c'', Null)],
       [(''a'', Num (Fin 2)), (''b'', Num (Fin 2)), (''c'', Str [])],
       [(''a'', Num (Fin 3)), (''b'', Num (Fin 3)), (''c'', Null)],
       [(''a'', Num (Fin 4)), (''b'', Num (Fin 4)), (''c'', Null)],
       [(''a'', Str ''x''), (''b'', Num (Fin 5)), (''c'', Null)],
       [(''a'', Null), (''b'', Str ''y''), (''c'', Null)]]
      ''b'' = 5"
    and lc: "nonMissingValues 
      [[(''a'', Num (Fin 1)), (''b'', Num (Fin 1)), (''c'', Null)],
       [(''a'', Num (Fin 2)), (''b'', Num (Fin 2)), (''c'', Str [])],
       [(''a'', Num (Fin 3)), (''b'', Num (Fin 3)), (''c'', Null)],
       [(''a'', Num (Fin 4)), (''b'', Num (Fin 4)), (''c'', Null)],
       [(''a'', Str ''x''), (''b'', Num (Fin 5)), (''c'', Null)],
       [(''a'', Null), (''b'', Str ''y''), (''c'', Null)]]
      ''c'' = []"
    by code_simp+
  have ta: "type (columnStat 
      [[(''a'', Num (Fin 1)), (''b'', Num (Fin 1)), (''c'', Null)],
       [(''a'', Num (Fin 2)), (''b'', Num (Fin 2)), (''c'', Str [])],
       [(''a'', Num (Fin 3)), (''b'', Num (Fin 3)), (''c'', Null)],
       [(''a'', Num (Fin 4)), (''b'', Num (Fin 4)), (''c'', Null)],
       [(''a'', Str ''x''), (''b'', Num (Fin 5)), (''c'', Null)],
       [(''a'', Null), (''b'', Str ''y''), (''c'', Null)]]
      ''a'') = string"
    using analyzeColumns_type [OF ma, THEN conjunct1]
    by (simp add: columnStat_name la na)
  have tb: "type (columnStat 
      [[(''a'', Num (Fin 1)), (''b'', Num (Fin 1)), (''c'', Null)],
       [(''a'', Num (Fin 2)), (''b'', Num (Fin 2)), (''c'', Str [])],
       [(''a'', Num (Fin 3)), (''b'', Num (Fin 3)), (''c'', Null)],
       [(''a'', Num (Fin 4)), (''b'', Num (Fin 4)), (''c'', Null)],
       [(''a'', Str ''x''), (''b'', Num (Fin 5)), (''c'', Null)],
       [(''a'', Null), (''b'', Str ''y''), (''c'', Null)]]
      ''b'') = number"
    using analyzeColumns_type [OF mb, THEN conjunct1]
    by (simp add: columnStat_name lb nb)
  have tc: "type (columnStat 
      [[(''a'', Num (Fin 1)), (''b'', Num (Fin 1)), (''c'', Null)],
       [(''a'', Num (Fin 2)), (''b'', Num (Fin 2)), (''c'', Str [])],
       [(''a'', Num (Fin 3)), (''b'', Num (Fin 3)), (''c'', Null)],
       [(''a'', Num (Fin 4)), (''b'', Num (Fin 4)), (''c'', Null)],
       [(''a'', Str ''x''), (''b'', Num (Fin 5)), (''c'', Null)],
       [(''a'', Null), (''b'', Str ''y''), (''c'', Null)]]
      ''c'') = string"
    using analyzeColumns_type [OF mc, THEN conjunct2] lc
    by (simp add: columnStat_name)
  from ma la na ta mb lb nb tb mc lc tc show ?thesis by (intro conjI)
qed

subsection \<open>Filtering and splitting the training rows\<close>

lemma isNumber_iff: "isNumber v \<longleftrightarrow> (\<exists>x. v = Num x)"
  by (cases v) (simp_all add: isNumber_def)

lemma evalStep_pair:
  "evalStep sc target features model (a, b, ps) row
     = (num_add a (Math_pow2 (num_sub (ToNumber (getProp row target))
                                      (denormalize sc (predictRow sc features model row) target))),
        num_add b (Math_abs (num_sub (ToNumber (getProp row target))
                                     (denormalize sc (predictRow sc features model row) target))),
        ps @ [\<lparr> actual = ToNumber (getProp row target),
                  predicted = denormalize sc (predictRow sc features model row) target \<rparr>])"
  by (simp add: evalStep_def Let_def)

lemma foldl_evalStep:
  "snd (snd (foldl (evalStep sc target features model) (a, b, ps) rows))
     = ps @ map (\<lambda>row. \<lparr> actual = ToNumber (getProp row target),
                          predicted = denormalize sc (predictRow sc features model row) target \<rparr>) rows"
proof (induction rows arbitrary: a b ps)
  case Nil
  then show ?case by simp
next
  case (Cons row rows)
  show ?case by (simp add: evalStep_pair Cons.IH)
qed

lemma predictions_case:
  "predictions (case x of (s, a, ps) \<Rightarrow> \<lparr> mae = f s a, mse = g s a, r2 = h s a, predictions = ps \<rparr>)
     = snd (snd x)"
  by (cases x) simp

lemma fitAndEvaluate_predictions:
  "map actual (predictions (fitAndEvaluate target features train test))
     = map (\<lambda>row. ToNumber (getProp row target)) test"
  by (simp add: fitAndEvaluate_def Let_def predictions_case foldl_evalStep comp_def)

lemma roundHalfEven_nonneg: "0 \<le> q \<Longrightarrow> 0 \<le> roundHalfEven q"
  by (simp add: roundHalfEven_def Let_def)

lemma scale2_nonneg: "0 \<le> v \<Longrightarrow> 0 \<le> scale2 v k"
  by (simp add: scale2_def)

lemma roundDouble_nonneg:
  assumes "0 \<le> x"
  shows "roundDouble x = PInf \<or> (\<exists>p. 0 \<le> p \<and> roundDouble x = Fin p)"
proof -
  have "0 \<le> scale2 (of_int (roundHalfEven (scale2 \<bar>x\<bar> (52 - max (binExp 1100 \<bar>x\<bar>) (- 1022)))))
                 (max (binExp 1100 \<bar>x\<bar>) (- 1022) - 52)"
    by (intro scale2_nonneg) (simp add: roundHalfEven_nonneg scale2_nonneg)
  with assms show ?thesis
    by (simp add: roundDouble_def Let_def)
qed

lemma mul64_length:
  "mul64 (num_of_nat n) (Fin r) = roundDouble (real n * r)"
  by (simp add: mul64_def num_of_nat_def)

lemma relIndex_floor: "0 \<le> x \<Longrightarrow> relIndex (Fin (of_int \<lfloor>x\<rfloor>)) len = min (nat \<lfloor>x\<rfloor>) len"
  by (simp add: Let_def)

lemma split_finite:
  assumes "roundDouble (real (length valid) * r) = Fin p" and "0 \<le> p"
  shows "slice2 valid (Fin 0) (splitIndex valid (Fin r)) = take (nat \<lfloor>p\<rfloor>) valid"
    and "slice1 valid (splitIndex valid (Fin r)) = drop (nat \<lfloor>p\<rfloor>) valid"
proof -
  have s: "splitIndex valid (Fin r) = Fin (of_int \<lfloor>p\<rfloor>)"
    by (simp add: splitIndex_def mul64_length assms(1))
  show "slice2 valid (Fin 0) (splitIndex valid (Fin r)) = take (nat \<lfloor>p\<rfloor>) valid"
    unfolding s using assms(2)
    by (simp add: slice2_def relIndex_floor Let_def del: relIndex.simps) (simp add: min_def)
  show "slice1 valid (splitIndex valid (Fin r)) = drop (nat \<lfloor>p\<rfloor>) valid"
    unfolding s using assms(2)
    by (simp add: slice1_def relIndex_floor del: relIndex.simps) (simp add: min_def)
qed

lemma split_overflow:
  assumes "roundDouble (real (length valid) * r) = PInf"
  shows "slice2 valid (Fin 0) (splitIndex valid (Fin r)) = valid"
    and "slice1 valid (splitIndex valid (Fin r)) = []"
proof -
  have s: "splitIndex valid (Fin r) = PInf"
    by (simp add: splitIndex_def mul64_length assms)
  show "slice2 valid (Fin 0) (splitIndex valid (Fin r)) = valid"
    unfolding s by (simp add: slice2_def)
  show "slice1 valid (splitIndex valid (Fin r)) = []"
    unfolding s by (simp add: slice1_def)
qed

text \<open>
  C3. For a split ratio that is not negative, \<open>trainModel\<close> keeps the rows whose target
  and feature cells are all numbers; the split index is the floor of the product of their
  count and the ratio, the product being the double that \<open>*\<close> computes; the first
  \<open>splitIndex\<close> of them, in their original order, are the rows the model is fitted on and
  the others the rows it is evaluated on (all of them are fitted on, and none evaluated,
  should the product overflow); the predictions list the test rows in that order.
\<close>

theorem trainModel_filter_split:
  assumes "0 \<le> r"
  shows "validData data target features
           = filter (\<lambda>row. (\<exists>x. getProp row target = Num x)
                          \<and> (\<forall>f \<in> set features. \<exists>x. getProp row f = Num x)) data
         \<and> splitIndex (validData data target features) (Fin r)
             = Math_floor (roundDouble (real (length (validData data target features)) * r))
         \<and> (case roundDouble (real (length (validData data target features)) * r) of
               Fin p \<Rightarrow>
                 0 \<le> p
                 \<and> trainData data target features (Fin r)
                     = take (nat \<lfloor>p\<rfloor>) (validData data target features)
                 \<and> testData data target features (Fin r)
                     = drop (nat \<lfloor>p\<rfloor>) (validData data target features)
                 \<and> trainModel data target features (Fin r)
                     = fitAndEvaluate target features
                         (take (nat \<lfloor>p\<rfloor>) (validData data target features))
                         (drop (nat \<lfloor>p\<rfloor>) (validData data target features))
             | PInf \<Rightarrow>
                 trainData data target features (Fin r) = validData data target features
                 \<and> testData data target features (Fin r) = []
                 \<and> trainModel data target features (Fin r)
                     = fitAndEvaluate target features (validData data target features) []
             | _ \<Rightarrow> False)
         \<and> trainData data target features (Fin r) @ testData data target features (Fin r)
             = validData data target features
         \<and> map actual (predictions (trainModel data target features (Fin r)))
             = map (\<lambda>row. ToNumber (getProp row target)) (testData data target features (Fin r))"
proof -
  have v: "validData data target features
           = filter (\<lambda>row. (\<exists>x. getProp row target = Num x)
                          \<and> (\<forall>f \<in> set features. \<exists>x. getProp row f = Num x)) data"
    by (simp add: validData_def isNumber_iff list_all_iff)
  have si: "splitIndex (validData data target features) (Fin r)
             = Math_floor (roundDouble (real (length (validData data target features)) * r))"
    by (simp add: splitIndex_def mul64_length)
  have pos: "0 \<le> real (length (validData data target features)) * r"
    using assms by simp
  have pr: "map actual (predictions (trainModel data target features (Fin r)))
             = map (\<lambda>row. ToNumber (getProp row target)) (testData data target features (Fin r))"
    by (simp add: trainModel_def fitAndEvaluate_predictions)
  from roundDouble_nonneg [OF pos]
  show ?thesis
  proof
    assume inf: "roundDouble (real (length (validData data target features)) * r) = PInf"
    have tr: "trainData data target features (Fin r) = validData data target features"
      and te: "testData data target features (Fin r) = []"
      by (simp_all add: trainData_def testData_def split_overflow [OF inf])
    have tm: "trainModel data target features (Fin r)
                = fitAndEvaluate target features (validData data target features) []"
      by (simp add: trainModel_def tr te)
    have app: "trainData data target features (Fin r) @ testData data target features (Fin r)
             = validData data target features"
      by (simp add: tr te)
    have c: "(case roundDouble (real (length (validData data target features)) * r) of
               Fin p \<Rightarrow>
                 0 \<le> p
                 \<and> trainData data target features (Fin r)
                     = take (nat \<lfloor>p\<rfloor>) (validData data target features)
                 \<and> testData data target features (Fin r)
                     = drop (nat \<lfloor>p\<rfloor>) (validData data target features)
                 \<and> trainModel data target features (Fin r)
                     = fitAndEvaluate target features
                         (take (nat \<lfloor>p\<rfloor>) (validData data target features))
                         (drop (nat \<lfloor>p\<rfloor>) (validData data target features))
             | PInf \<Rightarrow>
                 trainData data target features (Fin r) = validData data target features
                 \<and> testData data target features (Fin r) = []
                 \<and> trainModel data target features (Fin r)
                     = fitAndEvaluate target features (validData data target features) []
             | _ \<Rightarrow> False)"
      unfolding inf using tr te tm by simp
    from v si c app pr show ?thesis by (intro conjI)
  next
    assume "\<exists>p. 0 \<le> p \<and> roundDouble (real (length (validData data target features)) * r) = Fin p"
    then obtain p where p: "0 \<le> p"
      and fin: "roundDouble (real (length (validData data target features)) * r) = Fin p"
      by blast
    have tr: "trainData data target features (Fin r)
                = take (nat \<lfloor>p\<rfloor>) (validData data target features)"
      and te: "testData data target features (Fin r)
                = drop (nat \<lfloor>p\<rfloor>) (validData data target features)"
      by (simp_all add: trainData_def testData_def split_finite [OF fin p])
    have tm: "trainModel data target features (Fin r)
                = fitAndEvaluate target features
                    (take (nat \<lfloor>p\<rfloor>) (validData data target features))
                    (drop (nat \<lfloor>p\<rfloor>) (validData data target features))"
      by (simp add: trainModel_def tr te)
    have app: "trainData data target features (Fin r) @ testData data target features (Fin r)
             = validData data target features"
      unfolding tr te by (rule append_take_drop_id)
    have c: "(case roundDouble (real (length (validData data target features)) * r) of
               Fin p \<Rightarrow>
                 0 \<le> p
                 \<and> trainData data target features (Fin r)
                     = take (nat \<lfloor>p\<rfloor>) (validData data target features)
                 \<and> testData data target features (Fin r)
                     = drop (nat \<lfloor>p\<rfloor>) (validData data target features)
                 \<and> trainModel data target features (Fin r)
                     = fitAndEvaluate target features
                         (take (nat \<lfloor>p\<rfloor>) (validData data target features))
                         (drop (nat \<lfloor>p\<rfloor>) (validData data target features))
             | PInf \<Rightarrow>
                 trainData data target features (Fin r) = validData data target features
                 \<and> testData data target features (Fin r) = []
                 \<and> trainModel data target features (Fin r)
                     = fitAndEvaluate target features (validData data target features) []
             | _ \<Rightarrow> False)"
      unfolding fin using p tr te tm by simp
    from v si c app pr show ?thesis by (intro conjI)
  qed
qed
theorem trainModel_filter_split_witness:
  "roundDouble (6 / 10) = Fin (5404319552844595 / 9007199254740992)
   \<and> validData
        [[(''a'', Num (Fin 1)), (''b'', Num (Fin 2))],
      [(''a'', Str ''x''), (''b'', Num (Fin 4))],
      [(''a'', Num (Fin 3)), (''b'', Num (Fin 6))],
      [(''a'', Num (Fin 4)), (''b'', Num (Fin 8))],
      [(''a'', Num (Fin 5)), (''b'', Num (Fin 10))],
      [(''a'', Num (Fin 6)), (''b'', Num (Fin 12))]]
        ''b'' [''a'']
      = [[(''a'', Num (Fin 1)), (''b'', Num (Fin 2))],
      [(''a'', Num (Fin 3)), (''b'', Num (Fin 6))],
      [(''a'', Num (Fin 4)), (''b'', Num (Fin 8))],
      [(''a'', Num (Fin 5)), (''b'', Num (Fin 10))],
      [(''a'', Num (Fin 6)), (''b'', Num (Fin 12))]]
   \<and> roundDouble (real (length
        [[(''a'', Num (Fin 1)), (''b'', Num (Fin 2))],
      [(''a'', Num (Fin 3)), (''b'', Num (Fin 6))],
      [(''a'', Num (Fin 4)), (''b'', Num (Fin 8))],
      [(''a'', Num (Fin 5)), (''b'', Num (Fin 10))],
      [(''a'', Num (Fin 6)), (''b'', Num (Fin 12))]]) * (5404319552844595 / 9007199254740992)) = Fin 3
   \<and> trainData
        [[(''a'', Num (Fin 1)), (''b'', Num (Fin 2))],
      [(''a'', Str ''x''), (''b'', Num (Fin 4))],
      [(''a'', Num (Fin 3)), (''b'', Num (Fin 6))],
      [(''a'', Num (Fin 4)), (''b'', Num (Fin 8))],
      [(''a'', Num (Fin 5)), (''b'', Num (Fin 10))],
      [(''a'', Num (Fin 6)), (''b'', Num (Fin 12))]]
        ''b'' [''a''] (Fin (5404319552844595 / 9007199254740992))
      = [[(''a'', Num (Fin 1)), (''b'', Num (Fin 2))],
      [(''a'', Num (Fin 3)), (''b'', Num (Fin 6))],
      [(''a'', Num (Fin 4)), (''b'', Num (Fin 8))]]
   \<and> testData
        [[(''a'', Num (Fin 1)), (''b'', Num (Fin 2))],
      [(''a'', Str ''x''), (''b'', Num (Fin 4))],
      [(''a'', Num (Fin 3)), (''b'', Num (Fin 6))],
      [(''a'', Num (Fin 4)), (''b'', Num (Fin 8))],
      [(''a'', Num (Fin 5)), (''b'', Num (Fin 10))],
      [(''a'', Num (Fin 6)), (''b'', Num (Fin 12))]]
        ''b'' [''a''] (Fin (5404319552844595 / 9007199254740992))
      = [[(''a'', Num (Fin 5)), (''b'', Num (Fin 10))],
      [(''a'', Num (Fin 6)), (''b'', Num (Fin 12))]]
   \<and> roundDouble (7 / 10) = Fin (3152519739159347 / 4503599627370496)
   \<and> roundDouble (real (length (replicate 90 [(''a'', Num (Fin 1)), (''b'', Num (Fin 2))])) * (3152519739159347 / 4503599627370496)) = Fin (8866461766385663 / 140737488355328)
   \<and> length (trainData (replicate 90 [(''a'', Num (Fin 1)), (''b'', Num (Fin 2))]) ''b'' [''a''] (Fin (3152519739159347 / 4503599627370496))) = 62
   \<and> length (testData (replicate 90 [(''a'', Num (Fin 1)), (''b'', Num (Fin 2))]) ''b'' [''a''] (Fin (3152519739159347 / 4503599627370496))) = 28"
proof -
  have r6: "(0::real) \<le> (5404319552844595 / 9007199254740992)" by simp
  have r7: "(0::real) \<le> (3152519739159347 / 4503599627370496)" by simp
  have d6: "roundDouble (6 / 10) = Fin (5404319552844595 / 9007199254740992)" by code_simp
  have d7: "roundDouble (7 / 10) = Fin (3152519739159347 / 4503599627370496)" by code_simp
  have v: "validData
        [[(''a'', Num (Fin 1)), (''b'', Num (Fin 2))],
      [(''a'', Str ''x''), (''b'', Num (Fin 4))],
      [(''a'', Num (Fin 3)), (''b'', Num (Fin 6))],
      [(''a'', Num (Fin 4)), (''b'', Num (Fin 8))],
      [(''a'', Num (Fin 5)), (''b'', Num (Fin 10))],
      [(''a'', Num (Fin 6)), (''b'', Num (Fin 12))]]
        ''b'' [''a'']
      = [[(''a'', Num (Fin 1)), (''b'', Num (Fin 2))],
      [(''a'', Num (Fin 3)), (''b'', Num (Fin 6))],
      [(''a'', Num (Fin 4)), (''b'', Num (Fin 8))],
      [(''a'', Num (Fin 5)), (''b'', Num (Fin 10))],
      [(''a'', Num (Fin 6)), (''b'', Num (Fin 12))]]"
    by code_simp
  have p6: "roundDouble (real (length
        [[(''a'', Num (Fin 1)), (''b'', Num (Fin 2))],
      [(''a'', Num (Fin 3)), (''b'', Num (Fin 6))],
      [(''a'', Num (Fin 4)), (''b'', Num (Fin 8))],
      [(''a'', Num (Fin 5)), (''b'', Num (Fin 10))],
      [(''a'', Num (Fin 6)), (''b'', Num (Fin 12))]]) * (5404319552844595 / 9007199254740992)) = Fin 3"
    by code_simp
  have v90: "validData (replicate 90 [(''a'', Num (Fin 1)), (''b'', Num (Fin 2))]) ''b'' [''a''] = (replicate 90 [(''a'', Num (Fin 1)), (''b'', Num (Fin 2))])"
    by code_simp
  have p90: "roundDouble (real (length (replicate 90 [(''a'', Num (Fin 1)), (''b'', Num (Fin 2))])) * (3152519739159347 / 4503599627370496)) = Fin (8866461766385663 / 140737488355328)"
    by code_simp
  note t6 = trainModel_filter_split [OF r6, of
        "[[(''a'', Num (Fin 1)), (''b'', Num (Fin 2))],
      [(''a'', Str ''x''), (''b'', Num (Fin 4))],
      [(''a'', Num (Fin 3)), (''b'', Num (Fin 6))],
      [(''a'', Num (Fin 4)), (''b'', Num (Fin 8))],
      [(''a'', Num (Fin 5)), (''b'', Num (Fin 10))],
      [(''a'', Num (Fin 6)), (''b'', Num (Fin 12))]]"
        "''b''" "[''a'']", THEN conjunct2, THEN conjunct2, THEN conjunct1, unfolded v p6]
  have tr: "trainData
        [[(''a'', Num (Fin 1)), (''b'', Num (Fin 2))],
      [(''a'', Str ''x''), (''b'', Num (Fin 4))],
      [(''a'', Num (Fin 3)), (''b'', Num (Fin 6))],
      [(''a'', Num (Fin 4)), (''b'', Num (Fin 8))],
      [(''a'', Num (Fin 5)), (''b'', Num (Fin 10))],
      [(''a'', Num (Fin 6)), (''b'', Num (Fin 12))]]
        ''b'' [''a''] (Fin (5404319552844595 / 9007199254740992))
      = [[(''a'', Num (Fin 1)), (''b'', Num (Fin 2))],
      [(''a'', Num (Fin 3)), (''b'', Num (Fin 6))],
      [(''a'', Num (Fin 4)), (''b'', Num (Fin 8))]]"
    using t6 by simp
  have te: "testData
        [[(''a'', Num (Fin 1)), (''b'', Num (Fin 2))],
      [(''a'', Str ''x''), (''b'', Num (Fin 4))],
      [(''a'', Num (Fin 3)), (''b'', Num (Fin 6))],
      [(''a'', Num (Fin 4)), (''b'', Num (Fin 8))],
      [(''a'', Num (Fin 5)), (''b'', Num (Fin 10))],
      [(''a'', Num (Fin 6)), (''b'', Num (Fin 12))]]
        ''b'' [''a''] (Fin (5404319552844595 / 9007199254740992))
      = [[(''a'', Num (Fin 5)), (''b'', Num (Fin 10))],
      [(''a'', Num (Fin 6)), (''b'', Num (Fin 12))]]"
    using t6 by simp
  note t90 = trainModel_filter_split [OF r7, of "(replicate 90 [(''a'', Num (Fin 1)), (''b'', Num (Fin 2))])" "''b''" "[''a'']",
        THEN conjunct2, THEN conjunct2, THEN conjunct1, unfolded v90 p90]
  have f90: "nat \<lfloor>(8866461766385663 / 140737488355328 :: real)\<rfloor> = 62" by simp
  have l1: "length (trainData (replicate 90 [(''a'', Num (Fin 1)), (''b'', Num (Fin 2))]) ''b'' [''a''] (Fin (3152519739159347 / 4503599627370496))) = 62"
    using t90 by (simp add: f90)
  have l2: "length (testData (replicate 90 [(''a'', Num (Fin 1)), (''b'', Num (Fin 2))]) ''b'' [''a''] (Fin (3152519739159347 / 4503599627370496))) = 28"
    using t90 by (simp add: f90)
  from d6 v p6 tr te d7 p90 l1 l2 show ?thesis by (intro conjI)
qed

subsection \<open>Training on no valid row\<close>

lemma trainModel_no_valid_rows_aux:
  assumes "validData data target features = []"
  shows "trainData data target features splitRatio = []"
    and "testData data target features splitRatio = []"
  using assms by (simp_all add: trainData_def testData_def slice1_def slice2_def)

text \<open>
  C9. When no row has numbers in the target and every feature column, \<open>trainModel\<close>
  still returns metrics: the three of them are \<open>NaN\<close>, from \<open>0/0\<close>, and there is no
  prediction. The model has no error result, as the source has no \<open>throw\<close>.
\<close>

theorem trainModel_no_valid_rows:
  assumes "validData data target features = []"
  shows "trainModel data target features splitRatio
           = \<lparr> mae = NaN, mse = NaN, r2 = NaN, predictions = [] \<rparr>"
  by (simp add: trainModel_def fitAndEvaluate_def trainModel_no_valid_rows_aux [OF assms]
        num_of_nat_def num_sub_def)

theorem trainModel_no_valid_rows_witness:
  "validData [[(''a'', Str ''x''), (''b'', Num (Fin 1))], [(''a'', Null), (''b'', Num (Fin 2))]]
       ''b'' [''a''] = []
   \<and> trainModel [[(''a'', Str ''x''), (''b'', Num (Fin 1))], [(''a'', Null), (''b'', Num (Fin 2))]]
       ''b'' [''a''] (Fin (8 / 10))
       = \<lparr> mae = NaN, mse = NaN, r2 = NaN, predictions = [] \<rparr>"
proof -
  have v: "validData [[(''a'', Str ''x''), (''b'', Num (Fin 1))], [(''a'', Null), (''b'', Num (Fin 2))]]
       ''b'' [''a''] = []"
    by code_simp
  from v trainModel_no_valid_rows [OF v] show ?thesis by (intro conjI)
qed

subsection \<open>Which lines become rows\<close>

lemma parseLines_eq:
  "parseLines headers ls
     = map (buildRow headers)
         (filter (\<lambda>values. length values = length headers)
            (map (\<lambda>l. splitFields (trim l)) (filter (\<lambda>l. trim l \<noteq> []) ls)))"
  by (induction ls) (simp_all add: Let_def)

lemma split_nonempty: "split c s \<noteq> []"
  by (induction s) (simp_all add: Let_def)

lemma parseCSV_parseLines:
  "parseCSV csvText = parseLines (headerFields csvText) (dataLines csvText)"
proof (cases "length (csvLines csvText) < 2")
  case True
  moreover have "csvLines csvText \<noteq> []" by (simp add: csvLines_def split_nonempty)
  ultimately have "tl (csvLines csvText) = []"
    by (cases "csvLines csvText") (auto simp: less_Suc_eq)
  with True show ?thesis
    by (simp add: parseCSV_def dataLines_def csvLines_def Let_def)
next
  case False
  then show ?thesis
    by (simp add: parseCSV_def dataLines_def headerFields_def csvLines_def Let_def)
qed

text \<open>
  C5. The rows \<open>parseCSV\<close> returns are, in order, one row for each data line that is
  not blank and has as many fields as the header; a line with another field count gives
  no row, and there is no error result. The witness is the CSV \<open>x,y / foo,1 / bar,\<close>
  with the line \<open>1,2,3\<close> put in at each place after the header: two rows.
\<close>

theorem parseCSV_rows:
  "parseCSV csvText
     = map (buildRow (headerFields csvText))
         (filter (\<lambda>values. length values = length (headerFields csvText))
            (map (\<lambda>l. splitFields (trim l)) (filter (\<lambda>l. trim l \<noteq> []) (dataLines csvText))))
   \<and> length (parseCSV csvText)
       = length (filter (\<lambda>l. trim l \<noteq> []
                             \<and> length (splitFields (trim l)) = length (headerFields csvText))
                   (dataLines csvText))"
proof -
  have eq: "parseCSV csvText
     = map (buildRow (headerFields csvText))
         (filter (\<lambda>values. length values = length (headerFields csvText))
            (map (\<lambda>l. splitFields (trim l)) (filter (\<lambda>l. trim l \<noteq> []) (dataLines csvText))))"
    unfolding parseCSV_parseLines by (rule parseLines_eq)
  have "length (parseCSV csvText)
       = length (filter (\<lambda>l. trim l \<noteq> []
                             \<and> length (splitFields (trim l)) = length (headerFields csvText))
                   (dataLines csvText))"
    unfolding eq by (simp add: filter_map comp_def conj_commute)
  with eq show ?thesis by (intro conjI)
qed

theorem parseCSV_rows_witness:
  "headerFields ''x,y\<newline>foo,1\<newline>1,2,3\<newline>bar,'' = [''x'', ''y'']
   \<and> dataLines ''x,y\<newline>foo,1\<newline>1,2,3\<newline>bar,'' = [''foo,1'', ''1,2,3'', ''bar,'']
   \<and> length (parseCSV ''x,y\<newline>foo,1\<newline>1,2,3\<newline>bar,'') = 2
   \<and> parseCSV ''x,y\<newline>foo,1\<newline>1,2,3\<newline>bar,''
       = [[(''x'', Str ''foo''), (''y'', Num (Fin 1))], [(''x'', Str ''bar''), (''y'', Null)]]
   \<and> parseCSV ''x,y\<newline>1,2,3\<newline>foo,1\<newline>bar,''
       = [[(''x'', Str ''foo''), (''y'', Num (Fin 1))], [(''x'', Str ''bar''), (''y'', Null)]]
   \<and> parseCSV ''x,y\<newline>foo,1\<newline>bar,\<newline>1,2,3''
       = [[(''x'', Str ''foo''), (''y'', Num (Fin 1))], [(''x'', Str ''bar''), (''y'', Null)]]"
proof -
  have h: "headerFields ''x,y\<newline>foo,1\<newline>1,2,3\<newline>bar,'' = [''x'', ''y'']"
    by code_simp
  have d: "dataLines ''x,y\<newline>foo,1\<newline>1,2,3\<newline>bar,'' = [''foo,1'', ''1,2,3'', ''bar,'']"
    by code_simp
  have f: "length (filter (\<lambda>l. trim l \<noteq> [] \<and> length (splitFields (trim l)) = length [''x'', ''y''])
                     [''foo,1'', ''1,2,3'', ''bar,'']) = 2"
    by code_simp
  have n: "length (parseCSV ''x,y\<newline>foo,1\<newline>1,2,3\<newline>bar,'') = 2"
    using parseCSV_rows [of "''x,y\<newline>foo,1\<newline>1,2,3\<newline>bar,''", THEN conjunct2]
    unfolding h d f .
  have p2: "parseCSV ''x,y\<newline>foo,1\<newline>1,2,3\<newline>bar,''
       = [[(''x'', Str ''foo''), (''y'', Num (Fin 1))], [(''x'', Str ''bar''), (''y'', Null)]]"
    by code_simp
  have p1: "parseCSV ''x,y\<newline>1,2,3\<newline>foo,1\<newline>bar,''
       = [[(''x'', Str ''foo''), (''y'', Num (Fin 1))], [(''x'', Str ''bar''), (''y'', Null)]]"
    by code_simp
  have p3: "parseCSV ''x,y\<newline>foo,1\<newline>bar,\<newline>1,2,3''
       = [[(''x'', Str ''foo''), (''y'', Num (Fin 1))], [(''x'', Str ''bar''), (''y'', Null)]]"
    by code_simp
  from h d n p2 p1 p3 show ?thesis by (intro conjI)
qed

subsection \<open>Properties of rows\<close>

lemma map_of_overwriteProp:
  "map_of (overwriteProp r k v) k'
     = (if k' = k \<and> k \<in> fst ` set r then Some v else map_of r k')"
  by (induction r) (force simp: image_iff)+

lemma map_of_insertProp:
  "k \<notin> fst ` set r \<Longrightarrow>
   map_of (insertProp r k v) k' = (if k' = k then Some v else map_of r k')"
  by (induction r) auto

lemma getProp_defineProp:
  "getProp (defineProp r k v) k' = (if k' = k then v else getProp r k')"
  by (simp add: getProp_def defineProp_def map_of_overwriteProp map_of_insertProp)

lemma overwriteProp_member: "k \<in> fst ` set r \<Longrightarrow> (k, v) \<in> set (overwriteProp r k v)"
  by (induction r) (force simp: image_iff)+

lemma insertProp_member: "(k, v) \<in> set (insertProp r k v)"
  by (induction r) auto

lemma defineProp_member: "(k, v) \<in> set (defineProp r k v)"
  by (simp add: defineProp_def overwriteProp_member insertProp_member)

subsection \<open>Filling a column with no value\<close>

lemma calculateMode_Nil: "calculateMode n2s [] = Undefined"
  by (simp add: calculateMode_def)

lemma fillColumn_all_missing:
  assumes "find (\<lambda>s. name s = col) stats = Some stat"
    and "type stat = string \<or> m = fill_mode"
    and "\<forall>row \<in> set data. getProp row col = Null \<or> getProp row col = Str []"
  shows "fillColumn n2s stats m data col = map (\<lambda>row. defineProp row col Undefined) data"
proof -
  have vv: "filter (\<lambda>v. v \<noteq> Null \<and> v \<noteq> Str []) (map (\<lambda>r. getProp r col) data) = []"
    using assms(3) by (auto simp: filter_empty_conv)
  have fv: "fillValueOf n2s stat m [] = Undefined"
    using assms(2) by (auto simp: fillValueOf_def calculateMode_Nil)
  have mp: "map (\<lambda>row. if isMissing (getProp row col) then defineProp row col Undefined else row) data
          = map (\<lambda>row. defineProp row col Undefined) data"
    using assms(3) by (intro map_cong) (auto simp: isMissing_def)
  show ?thesis
    by (simp only: fillColumn_def assms(1) option.case vv Let_def fv mp)
qed

lemma dedupe_nonempty: "xs \<noteq> [] \<Longrightarrow> dedupe n2s [] xs \<noteq> []"
  by (cases xs) (simp_all add: Let_def)

text \<open>
  C10. When every cell of the one target column is missing and the fill value is the
  mode (the column is profiled \<open>string\<close>, as the profiler does for such a column, or the
  method is \<open>fill_mode\<close>), every returned row has that column as a property whose value is
  \<open>undefined\<close>, which is none of number, string and \<open>null\<close>; and rows are returned when
  there are input rows.
\<close>

theorem cleanData_fill_all_missing:
  assumes "method' opts \<noteq> drop_rows"
    and "targetColumns opts = [col]"
    and "find (\<lambda>s. name s = col) stats = Some stat"
    and "type stat = string \<or> method' opts = fill_mode"
    and "\<forall>row \<in> set data. getProp row col = Null \<or> getProp row col = Str []"
  shows "(\<forall>row \<in> set (cleanData n2s data stats opts).
            (col, Undefined) \<in> set row \<and> getProp row col = Undefined)
         \<and> (data \<noteq> [] \<longrightarrow> cleanData n2s data stats opts \<noteq> [])"
proof -
  have c: "cleanData n2s data stats opts
             = dedupe n2s [] (map (\<lambda>row. defineProp row col Undefined) data)"
    using assms(1,2) fillColumn_all_missing [OF assms(3,4,5)]
    by (simp add: cleanData_def)
  have "\<forall>row \<in> set (cleanData n2s data stats opts).
          (col, Undefined) \<in> set row \<and> getProp row col = Undefined"
  proof
    fix row
    assume "row \<in> set (cleanData n2s data stats opts)"
    then have "row \<in> set (map (\<lambda>row. defineProp row col Undefined) data)"
      unfolding c using dedupe_subset by blast
    then show "(col, Undefined) \<in> set row \<and> getProp row col = Undefined"
      by (auto simp: getProp_defineProp defineProp_member)
  qed
  moreover have "data \<noteq> [] \<longrightarrow> cleanData n2s data stats opts \<noteq> []"
    unfolding c by (simp add: dedupe_nonempty)
  ultimately show ?thesis by (intro conjI)
qed

theorem cleanData_fill_all_missing_witness:
  "type (columnStat [[(''a'', Null), (''b'', Num (Fin 1))], [(''a'', Str []), (''b'', Num (Fin 2))]] ''a'')
      = string
   \<and> cleanData integerText
        [[(''a'', Null), (''b'', Num (Fin 1))], [(''a'', Str []), (''b'', Num (Fin 2))]]
        (analyzeColumns [[(''a'', Null), (''b'', Num (Fin 1))], [(''a'', Str []), (''b'', Num (Fin 2))]])
        \<lparr>method' = fill_mean, targetColumns = [''a'']\<rparr>
      = [[(''a'', Undefined), (''b'', Num (Fin 1))], [(''a'', Undefined), (''b'', Num (Fin 2))]]
   \<and> list_all (\<lambda>row. getProp row ''a'' = Undefined)
        (cleanData integerText
          [[(''a'', Null), (''b'', Num (Fin 1))], [(''a'', Str []), (''b'', Num (Fin 2))]]
          (analyzeColumns [[(''a'', Null), (''b'', Num (Fin 1))], [(''a'', Str []), (''b'', Num (Fin 2))]])
          \<lparr>method' = fill_mean, targetColumns = [''a'']\<rparr>)"
proof -
  have t: "type (columnStat [[(''a'', Null), (''b'', Num (Fin 1))], [(''a'', Str []), (''b'', Num (Fin 2))]] ''a'')
      = string"
    by code_simp
  have f: "find (\<lambda>s. name s = ''a'')
             (analyzeColumns [[(''a'', Null), (''b'', Num (Fin 1))], [(''a'', Str []), (''b'', Num (Fin 2))]])
           = Some (columnStat [[(''a'', Null), (''b'', Num (Fin 1))], [(''a'', Str []), (''b'', Num (Fin 2))]] ''a'')"
    by (simp add: analyzeColumns_def Object_keys_def columnStat_name)
  have v: "cleanData integerText
        [[(''a'', Null), (''b'', Num (Fin 1))], [(''a'', Str []), (''b'', Num (Fin 2))]]
        (analyzeColumns [[(''a'', Null), (''b'', Num (Fin 1))], [(''a'', Str []), (''b'', Num (Fin 2))]])
        \<lparr>method' = fill_mean, targetColumns = [''a'']\<rparr>
      = [[(''a'', Undefined), (''b'', Num (Fin 1))], [(''a'', Undefined), (''b'', Num (Fin 2))]]"
    by code_simp
  have m: "\<forall>row \<in> set [[(''a'', Null), (''b'', Num (Fin 1))], [(''a'', Str []), (''b'', Num (Fin 2))]].
             getProp row ''a'' = Null \<or> getProp row ''a'' = Str []"
    by (simp add: getProp_def)
  have "\<forall>row \<in> set (cleanData integerText
          [[(''a'', Null), (''b'', Num (Fin 1))], [(''a'', Str []), (''b'', Num (Fin 2))]]
          (analyzeColumns [[(''a'', Null), (''b'', Num (Fin 1))], [(''a'', Str []), (''b'', Num (Fin 2))]])
          \<lparr>method' = fill_mean, targetColumns = [''a'']\<rparr>).
            (''a'', Undefined) \<in> set row \<and> getProp row ''a'' = Undefined"
    by (rule cleanData_fill_all_missing [THEN conjunct1, OF _ _ f _ m]) (simp_all add: t)
  then have l: "list_all (\<lambda>row. getProp row ''a'' = Undefined)
        (cleanData integerText
          [[(''a'', Null), (''b'', Num (Fin 1))], [(''a'', Str []), (''b'', Num (Fin 2))]]
          (analyzeColumns [[(''a'', Null), (''b'', Num (Fin 1))], [(''a'', Str []), (''b'', Num (Fin 2))]])
          \<lparr>method' = fill_mean, targetColumns = [''a'']\<rparr>)"
    unfolding list_all_iff by blast
  from t v l show ?thesis by (intro conjI)
qed

subsection \<open>Rows as built by the parser\<close>

lemma keys_overwriteProp: "map fst (overwriteProp r k v) = map fst r"
  by (induction r) auto

lemma set_overwriteProp:
  "distinct (map fst r) \<Longrightarrow> k \<in> fst ` set r \<Longrightarrow>
   set (overwriteProp r k v) = insert (k, v) {e \<in> set r. fst e \<noteq> k}"
  by (induction r) (force simp: image_iff)+

lemma set_insertProp: "set (insertProp r k v) = insert (k, v) (set r)"
  by (induction r) (auto split: if_splits)

lemma distinct_insertProp:
  "distinct (map fst r) \<Longrightarrow> k \<notin> fst ` set r \<Longrightarrow> distinct (map fst (insertProp r k v))"
  by (induction r) (auto simp: set_insertProp image_iff)

lemma length_insertProp: "length (insertProp r k v) = Suc (length r)"
  by (induction r) auto

lemma distinct_defineProp:
  "distinct (map fst r) \<Longrightarrow> distinct (map fst (defineProp r k v))"
  by (simp add: defineProp_def keys_overwriteProp distinct_insertProp)

lemma set_defineProp:
  "distinct (map fst r) \<Longrightarrow>
   set (defineProp r k v) = insert (k, v) {e \<in> set r. fst e \<noteq> k}"
  by (auto simp: defineProp_def set_overwriteProp set_insertProp image_iff)

lemma lastField_snoc:
  "lastField (kvs @ [(k, v)]) k' c \<longleftrightarrow> (k' = k \<and> c = v) \<or> (k' \<noteq> k \<and> lastField kvs k' c)"
proof
  assume "lastField (kvs @ [(k, v)]) k' c"
  then obtain i where i: "i < Suc (length kvs)" "(kvs @ [(k, v)]) ! i = (k', c)"
    and later: "\<forall>j. i < j \<and> j < Suc (length kvs) \<longrightarrow> fst ((kvs @ [(k, v)]) ! j) \<noteq> k'"
    by (auto simp: lastField_def)
  show "(k' = k \<and> c = v) \<or> (k' \<noteq> k \<and> lastField kvs k' c)"
  proof (cases "i = length kvs")
    case True
    with i(2) show ?thesis by simp
  next
    case False
    with i(1) have lt: "i < length kvs" by simp
    with i(2) have e: "kvs ! i = (k', c)" by (simp add: nth_append)
    from later lt have "fst ((kvs @ [(k, v)]) ! length kvs) \<noteq> k'" by blast
    then have ne: "k' \<noteq> k" by auto
    have "\<forall>j. i < j \<and> j < length kvs \<longrightarrow> fst (kvs ! j) \<noteq> k'"
    proof (intro allI impI)
      fix j assume j: "i < j \<and> j < length kvs"
      with later have "fst ((kvs @ [(k, v)]) ! j) \<noteq> k'" by simp
      with j show "fst (kvs ! j) \<noteq> k'" by (simp add: nth_append)
    qed
    with lt e have "lastField kvs k' c" by (auto simp: lastField_def)
    with ne show ?thesis by simp
  qed
next
  assume "(k' = k \<and> c = v) \<or> (k' \<noteq> k \<and> lastField kvs k' c)"
  then show "lastField (kvs @ [(k, v)]) k' c"
  proof
    assume "k' = k \<and> c = v"
    then have "(kvs @ [(k, v)]) ! length kvs = (k', c)" by simp
    then show ?thesis unfolding lastField_def
      by (intro exI [of _ "length kvs"]) auto
  next
    assume a: "k' \<noteq> k \<and> lastField kvs k' c"
    then obtain i where i: "i < length kvs" "kvs ! i = (k', c)"
      and later: "\<forall>j. i < j \<and> j < length kvs \<longrightarrow> fst (kvs ! j) \<noteq> k'"
      by (auto simp: lastField_def)
    have "\<forall>j. i < j \<and> j < length (kvs @ [(k, v)]) \<longrightarrow> fst ((kvs @ [(k, v)]) ! j) \<noteq> k'"
    proof (intro allI impI)
      fix j assume j: "i < j \<and> j < length (kvs @ [(k, v)])"
      show "fst ((kvs @ [(k, v)]) ! j) \<noteq> k'"
      proof (cases "j = length kvs")
        case True
        with a show ?thesis by auto
      next
        case False
        with j have "j < length kvs" by simp
        with later j show ?thesis by (simp add: nth_append)
      qed
    qed
    with i show ?thesis unfolding lastField_def
      by (intro exI [of _ i]) (simp add: nth_append)
  qed
qed

lemma assignProp_cases:
  "assignProp (np, row) (k, v)
     = (if k = ''__proto__'' \<and> \<not> np then (v = Null, row) else (np, defineProp row k v))"
  by (simp add: assignProp_def)

lemma foldl_assignProp_inv:
  "foldl assignProp (False, []) kvs = (np, row) \<Longrightarrow>
     distinct (map fst row)
     \<and> (\<not> np \<longrightarrow> ''__proto__'' \<notin> fst ` set row)
     \<and> (\<forall>k c. (k, c) \<in> set row \<longrightarrow> lastField kvs k c)
     \<and> fst ` set kvs - {''__proto__''} \<subseteq> fst ` set row
     \<and> fst ` set row \<subseteq> fst ` set kvs"
proof (induction kvs arbitrary: np row rule: rev_induct)
  case Nil
  then show ?case by simp
next
  case (snoc kv kvs)
  obtain k v where kv: "kv = (k, v)" by (cases kv)
  obtain np0 row0 where f0: "foldl assignProp (False, []) kvs = (np0, row0)"
    by (cases "foldl assignProp (False, []) kvs")
  note ih = snoc.IH [OF f0]
  from ih have d0: "distinct (map fst row0)" by simp
  from ih have p0: "\<not> np0 \<longrightarrow> ''__proto__'' \<notin> fst ` set row0" by simp
  from ih have l0: "\<forall>k c. (k, c) \<in> set row0 \<longrightarrow> lastField kvs k c" by simp
  from ih have s0: "fst ` set kvs - {''__proto__''} \<subseteq> fst ` set row0" by simp
  from ih have t0: "fst ` set row0 \<subseteq> fst ` set kvs" by simp
  from snoc.prems have step: "assignProp (np0, row0) (k, v) = (np, row)"
    by (simp add: f0 kv)
  show ?case
  proof (cases "k = ''__proto__'' \<and> \<not> np0")
    case True
    with step have r: "row = row0" and n: "np = (v = Null)"
      by (simp_all add: assignProp_cases)
    from True p0 have nk: "k \<notin> fst ` set row0" by simp
    have "\<forall>k' c. (k', c) \<in> set row \<longrightarrow> lastField (kvs @ [kv]) k' c"
    proof (intro allI impI)
      fix k' c assume m: "(k', c) \<in> set row"
      with r l0 have "lastField kvs k' c" by simp
      moreover from m r nk have "k' \<noteq> k" by (auto simp: image_iff)
      ultimately show "lastField (kvs @ [kv]) k' c"
        unfolding kv by (simp add: lastField_snoc)
    qed
    moreover have "\<not> np \<longrightarrow> ''__proto__'' \<notin> fst ` set row"
      using r nk True by simp
    moreover have "fst ` set (kvs @ [kv]) - {''__proto__''} \<subseteq> fst ` set row"
      using s0 r True kv by auto
    moreover have "fst ` set row \<subseteq> fst ` set (kvs @ [kv])"
      using t0 r by auto
    ultimately show ?thesis using d0 r by simp
  next
    case False
    with step have r: "row = defineProp row0 k v" and n: "np = np0"
      by (simp_all add: assignProp_cases)
    have sr: "set row = insert (k, v) {e \<in> set row0. fst e \<noteq> k}"
      unfolding r using d0 by (rule set_defineProp)
    have "\<forall>k' c. (k', c) \<in> set row \<longrightarrow> lastField (kvs @ [kv]) k' c"
    proof (intro allI impI)
      fix k' c assume m: "(k', c) \<in> set row"
      then have "(k' = k \<and> c = v) \<or> (k' \<noteq> k \<and> (k', c) \<in> set row0)"
        unfolding sr by auto
      with l0 show "lastField (kvs @ [kv]) k' c"
        unfolding kv by (auto simp: lastField_snoc)
    qed
    moreover have "distinct (map fst row)"
      unfolding r using d0 by (rule distinct_defineProp)
    moreover have "\<not> np \<longrightarrow> ''__proto__'' \<notin> fst ` set row"
      using p0 False n unfolding sr by auto
    moreover have "fst ` set (kvs @ [kv]) - {''__proto__''} \<subseteq> fst ` set row"
      using s0 unfolding sr kv by force
    moreover have "fst ` set row \<subseteq> fst ` set (kvs @ [kv])"
      using t0 unfolding sr kv by auto
    ultimately show ?thesis by simp
  qed
qed

subsection \<open>Cells of the parsed rows\<close>








lemma lastField_zip:
  "length cs = length hs \<Longrightarrow>
   lastField (zip hs cs) k c \<longleftrightarrow>
     (\<exists>i < length hs. hs ! i = k \<and> cs ! i = c \<and> (\<forall>j. i < j \<and> j < length hs \<longrightarrow> hs ! j \<noteq> k))"
  by (auto simp: lastField_def)

lemma buildRow_inv:
  assumes "length values = length headers"
  shows "distinct (map fst (buildRow headers values))"
    and "(k, c) \<in> set (buildRow headers values) \<Longrightarrow>
           \<exists>i < length headers. headers ! i = k \<and> c = castCell (values ! i)
               \<and> (\<forall>j. i < j \<and> j < length headers \<longrightarrow> headers ! j \<noteq> k)"
    and "set headers - {''__proto__''} \<subseteq> fst ` set (buildRow headers values)"
    and "fst ` set (buildRow headers values) \<subseteq> set headers"
proof -
  obtain np row where f: "foldl assignProp (False, []) (zip headers (map castCell values)) = (np, row)"
    by (cases "foldl assignProp (False, []) (zip headers (map castCell values))")
  then have b: "buildRow headers values = row" by (simp add: buildRow_def)
  note inv = foldl_assignProp_inv [OF f]
  have keys: "fst ` set (zip headers (map castCell values)) = set headers"
    using assms by (metis length_map map_fst_zip set_map)
  show "distinct (map fst (buildRow headers values))" using inv b by simp
  show "set headers - {''__proto__''} \<subseteq> fst ` set (buildRow headers values)"
    using inv b keys by simp
  show "fst ` set (buildRow headers values) \<subseteq> set headers"
    using inv b keys by simp
  show "\<exists>i < length headers. headers ! i = k \<and> c = castCell (values ! i)
               \<and> (\<forall>j. i < j \<and> j < length headers \<longrightarrow> headers ! j \<noteq> k)"
    if "(k, c) \<in> set (buildRow headers values)"
  proof -
    from that inv b have "lastField (zip headers (map castCell values)) k c" by simp
    then obtain i where i: "i < length headers" "headers ! i = k"
        "map castCell values ! i = c" "\<forall>j. i < j \<and> j < length headers \<longrightarrow> headers ! j \<noteq> k"
      using assms by (auto simp: lastField_zip)
    from i(1,3) assms have "c = castCell (values ! i)" by simp
    with i show ?thesis by blast
  qed
qed


lemma parseCSV_member:
  assumes "row \<in> set (parseCSV csvText)"
  shows "\<exists>line \<in> set (dataLines csvText).
           trim line \<noteq> [] \<and> length (splitFields (trim line)) = length (headerFields csvText)
           \<and> row = buildRow (headerFields csvText) (splitFields (trim line))"
  using assms unfolding parseCSV_parseLines parseLines_eq by auto





subsection \<open>Number of column stats\<close>

lemma analyzeColumns_length_row:
  "analyzeColumns (row # rows) = map (columnStat (row # rows)) (Object_keys row)"
  by (simp add: analyzeColumns_def)

text \<open>
  C7, amended. When the parse yields a row and no header name is \<open>__proto__\<close>, the
  profiler returns one stat for each distinct header name; it returns as many stats as
  there are header columns when the header names are pairwise distinct.
\<close>

theorem analyzeColumns_length:
  assumes "parseCSV csvText \<noteq> []" and "''__proto__'' \<notin> set (headerFields csvText)"
  shows "length (analyzeColumns (parseCSV csvText)) = card (set (headerFields csvText))
         \<and> (distinct (headerFields csvText) \<longrightarrow>
               length (analyzeColumns (parseCSV csvText)) = length (headerFields csvText))"
proof -
  from assms(1) obtain row rows where p: "parseCSV csvText = row # rows"
    by (cases "parseCSV csvText") auto
  then have "row \<in> set (parseCSV csvText)" by simp
  from parseCSV_member [OF this] obtain line
    where len: "length (splitFields (trim line)) = length (headerFields csvText)"
      and row: "row = buildRow (headerFields csvText) (splitFields (trim line))"
    by blast
  have keys: "fst ` set row = set (headerFields csvText)"
    using buildRow_inv(3,4) [OF len] assms(2) unfolding row by auto
  have "length (analyzeColumns (parseCSV csvText)) = length (map fst row)"
    by (simp add: p analyzeColumns_length_row Object_keys_def)
  also have "\<dots> = card (set (map fst row))"
    using buildRow_inv(1) [OF len] unfolding row by (rule distinct_card [symmetric])
  also have "\<dots> = card (set (headerFields csvText))"
    using keys by simp
  finally have c: "length (analyzeColumns (parseCSV csvText)) = card (set (headerFields csvText))" .
  then show ?thesis by (simp add: distinct_card)
qed

theorem analyzeColumns_length_witness:
  "parseCSV ''b,a,c\<newline>1,2,x'' \<noteq> []
   \<and> ''__proto__'' \<notin> set (headerFields ''b,a,c\<newline>1,2,x'')
   \<and> distinct (headerFields ''b,a,c\<newline>1,2,x'')
   \<and> length (headerFields ''b,a,c\<newline>1,2,x'') = 3
   \<and> length (analyzeColumns (parseCSV ''b,a,c\<newline>1,2,x'')) = 3"
proof -
  have p: "parseCSV ''b,a,c\<newline>1,2,x'' \<noteq> []" by code_simp
  have q: "''__proto__'' \<notin> set (headerFields ''b,a,c\<newline>1,2,x'')" by code_simp
  have d: "distinct (headerFields ''b,a,c\<newline>1,2,x'')" by code_simp
  have l: "length (headerFields ''b,a,c\<newline>1,2,x'') = 3" by code_simp
  from analyzeColumns_length [OF p q, THEN conjunct2] d l
  have "length (analyzeColumns (parseCSV ''b,a,c\<newline>1,2,x'')) = 3" by simp
  with p q d l show ?thesis by (intro conjI)
qed

text \<open>
  The header \<open>a,a\<close> has two columns and the header \<open>a,__proto__\<close> has two distinct
  names; both parses yield a row, and the profiler returns one stat for each.
\<close>

theorem analyzeColumns_length_counterexample:
  "parseCSV ''a,a\<newline>1,2'' = [[(''a'', Num (Fin 2))]]
   \<and> length (headerFields ''a,a\<newline>1,2'') = 2
   \<and> length (analyzeColumns (parseCSV ''a,a\<newline>1,2'')) = 1
   \<and> parseCSV ''a,__proto__\<newline>1,2'' = [[(''a'', Num (Fin 1))]]
   \<and> length (headerFields ''a,__proto__\<newline>1,2'') = 2
   \<and> length (analyzeColumns (parseCSV ''a,__proto__\<newline>1,2'')) = 1"
  by code_simp

subsection \<open>Filling with the mean\<close>

text \<open>
  C1, at an input where it fails. Column \<open>a\<close> of the example is profiled \<open>number\<close> and
  holds the string \<open>x\<close>: the sum is the text \<open>15x\<close>, and \<open>fill_mean\<close> puts \<open>NaN\<close> in the
  missing cell, not the mean of the column's values.
\<close>

theorem fill_mean_mixed_column:
  "parseCSV mixedCSV
     = [[(''a'', Num (Fin 1)), (''b'', Num (Fin 1))],
        [(''a'', Num (Fin 2)), (''b'', Num (Fin 2))],
        [(''a'', Num (Fin 3)), (''b'', Num (Fin 3))],
        [(''a'', Num (Fin 4)), (''b'', Num (Fin 4))],
        [(''a'', Num (Fin 5)), (''b'', Num (Fin 5))],
        [(''a'', Str ''x''), (''b'', Num (Fin 6))],
        [(''a'', Null), (''b'', Num (Fin 7))]]
   \<and> map type (analyzeColumns (parseCSV mixedCSV)) = [number, number]
   \<and> cleanData integerText (parseCSV mixedCSV) (analyzeColumns (parseCSV mixedCSV))
         \<lparr>method' = fill_mean, targetColumns = [''a'']\<rparr>
     = [[(''a'', Num (Fin 1)), (''b'', Num (Fin 1))],
        [(''a'', Num (Fin 2)), (''b'', Num (Fin 2))],
        [(''a'', Num (Fin 3)), (''b'', Num (Fin 3))],
        [(''a'', Num (Fin 4)), (''b'', Num (Fin 4))],
        [(''a'', Num (Fin 5)), (''b'', Num (Fin 5))],
        [(''a'', Str ''x''), (''b'', Num (Fin 6))],
        [(''a'', Num NaN), (''b'', Num (Fin 7))]]"
  by code_simp

text \<open>
  Where every non-missing value of the target column is a finite number and there is
  one, \<open>fill_mean\<close> fills the missing cells with their arithmetic mean, changes no other
  cell and leaves no missing value in the column.
\<close>

lemma foldl_js_plus_numbers:
  "foldl (js_plus n2s) (Num (Fin a)) (map (\<lambda>x. Num (Fin x)) xs) = Num (Fin (a + sum_list xs))"
  by (induction xs arbitrary: a) (simp_all add: js_plus_def add.assoc)

lemma fillValueOf_mean_numbers:
  assumes "type stat = number" and "xs \<noteq> []"
  shows "fillValueOf n2s stat fill_mean (map (\<lambda>x. Num (Fin x)) xs)
           = Num (Fin (sum_list xs / real (length xs)))"
  using assms
  by (simp add: fillValueOf_def foldl_js_plus_numbers [of n2s 0, simplified] js_div_def num_of_nat_def)

lemma cleanData_fill_mean_numeric:
  assumes "method' opts = fill_mean" and "targetColumns opts = [col]"
    and "find (\<lambda>s. name s = col) stats = Some stat" and "type stat = number"
    and "filter (\<lambda>v. v \<noteq> Null \<and> v \<noteq> Str []) (map (\<lambda>r. getProp r col) data)
           = map (\<lambda>x. Num (Fin x)) xs"
    and "xs \<noteq> []"
  shows "cleanData n2s data stats opts
           = dedupe n2s []
               (map (\<lambda>row. if getProp row col = Null \<or> getProp row col = Str []
                            then defineProp row col (Num (Fin (sum_list xs / real (length xs))))
                            else row) data)"
    and "\<forall>row \<in> set (cleanData n2s data stats opts).
           getProp row col \<noteq> Null \<and> getProp row col \<noteq> Str []"
proof -
  show c: "cleanData n2s data stats opts
           = dedupe n2s []
               (map (\<lambda>row. if getProp row col = Null \<or> getProp row col = Str []
                            then defineProp row col (Num (Fin (sum_list xs / real (length xs))))
                            else row) data)"
    using assms(1,2)
    by (simp add: cleanData_def fillColumn_def assms(3) assms(5)
          fillValueOf_mean_numbers [OF assms(4,6)] isMissing_def Let_def cong: if_cong)
  show "\<forall>row \<in> set (cleanData n2s data stats opts).
           getProp row col \<noteq> Null \<and> getProp row col \<noteq> Str []"
  proof
    fix row assume "row \<in> set (cleanData n2s data stats opts)"
    then have "row \<in> set (map (\<lambda>row. if getProp row col = Null \<or> getProp row col = Str []
                            then defineProp row col (Num (Fin (sum_list xs / real (length xs))))
                            else row) data)"
      unfolding c using dedupe_subset by blast
    then show "getProp row col \<noteq> Null \<and> getProp row col \<noteq> Str []"
      by (auto simp: getProp_defineProp split: if_splits)
  qed
qed

end
